theory Spec2Isabelle
  imports Main
begin

section \<open>JavaScript values\<close>

text \<open>
  The values the compile step handles are plain data: \<open>undefined\<close>, \<open>null\<close>,
  booleans, numbers, strings, arrays and objects. A number \<open>JNum n\<close> is the
  double that the integer \<open>n\<close> denotes (the nearest one). An object is the list of its
  own enumerable properties in the order \<open>Object.keys\<close> gives them; a function value is
  represented by the properties it carries. Strings are sequences of code units below
  256.
\<close>

datatype jsval =
    JUndefined
  | JNull
  | JBool bool
  | JNum int
  | JStr string
  | JArr "jsval list"
  | JObj "(string \<times> jsval) list"

datatype js_error = Error string | TypeError string

text \<open>Truthiness, as \<open>if (v)\<close>, \<open>v ? a : b\<close> and \<open>v || w\<close> test it.\<close>

fun truthy :: "jsval \<Rightarrow> bool" where
  "truthy JUndefined = False"
| "truthy JNull = False"
| "truthy (JBool b) = b"
| "truthy (JNum n) = (n \<noteq> 0)"
| "truthy (JStr s) = (s \<noteq> [])"
| "truthy (JArr xs) = True"
| "truthy (JObj ps) = True"

section \<open>Manifest extraction: \<open>statsToManifest\<close>\<close>

text \<open>
  A chunk of the bundler's compilation: \<open>chunk.id\<close>, \<open>chunk.name\<close> (\<open>None\<close> when it is
  \<open>undefined\<close> or \<open>null\<close>) and \<open>chunk.files\<close>. The stats object gives the chunks
  (\<open>stats.compilation.chunks\<close>) and \<open>stats.hash\<close>.
\<close>

record chunk =
  chunk_id :: nat
  chunk_name :: "string option"
  chunk_files :: "string list"

record stats =
  stats_chunks :: "chunk list"
  stats_hash :: string

record manifest =
  jsChunksByName :: "string \<rightharpoonup> jsval"
  jsChunksById :: "nat \<rightharpoonup> jsval"
  cssChunksByName :: "string \<rightharpoonup> jsval"
  manifest_hash :: string

text \<open>
  The assignment \<open>obj[k] = v\<close> on an object the code has created as \<open>{}\<close>, seen on the
  own properties of the object. It creates or overwrites the property \<open>k\<close>, but for the
  key \<open>__proto__\<close>: that assignment reaches the setter inherited from
  \<open>Object.prototype\<close>, which replaces the prototype of the object when \<open>v\<close> is an object
  or \<open>null\<close> and does nothing otherwise, and in no case gives the object a property of
  its own.
\<close>

definition obj_assign :: "(string \<rightharpoonup> 'v) \<Rightarrow> string \<Rightarrow> 'v \<Rightarrow> (string \<rightharpoonup> 'v)" where
  "obj_assign obj k v = (if k = ''__proto__'' then obj else obj(k \<mapsto> v))"

text \<open>\<open>if (chunk.name)\<close>: a name that is absent or the empty string is falsy.\<close>

definition has_name :: "chunk \<Rightarrow> bool" where
  "has_name c = (case chunk_name c of None \<Rightarrow> False | Some n \<Rightarrow> n \<noteq> [])"

text \<open>\<open>chunk.files[0]\<close>: reading index 0 of an empty array gives \<open>undefined\<close>.\<close>

definition files0 :: "string list \<Rightarrow> jsval" where
  "files0 fs = (case fs of [] \<Rightarrow> JUndefined | f # _ \<Rightarrow> JStr f)"

text \<open>\<open>/\.css$/.test(f)\<close>: without the multiline flag, \<open>$\<close> is the end of the input.\<close>

definition css_test :: "string \<Rightarrow> bool" where
  "css_test f = (4 \<le> length f \<and> drop (length f - 4) f = ''.css'')"

text \<open>
  The inner loop \<open>for (let i = 1; i < chunk.files.length; i++)\<close>, entered at index \<open>i\<close>
  with the current \<open>cssChunksByName\<close>; the \<open>break\<close> leaves it at the first match.
\<close>

function css_loop :: "string list \<Rightarrow> string \<Rightarrow> nat \<Rightarrow> (string \<rightharpoonup> jsval) \<Rightarrow> (string \<rightharpoonup> jsval)" where
  "css_loop fs n i css =
     (if i < length fs then
        (if css_test (fs ! i) then obj_assign css n (JStr (fs ! i))
         else css_loop fs n (Suc i) css)
      else css)"
  by pat_completeness auto
termination
  by (relation "measure (\<lambda>(fs, n, i, css). length fs - i)") auto

declare css_loop.simps [simp del]

text \<open>
  One iteration of \<open>for (const chunk of stats.compilation.chunks)\<close>. The key of
  \<open>jsChunksById[chunk.id]\<close> is the text of a number, never \<open>__proto__\<close>.
\<close>

definition manifest_step :: "manifest \<Rightarrow> chunk \<Rightarrow> manifest" where
  "manifest_step m c =
     (let m1 =
        (if has_name c then
           m\<lparr>jsChunksByName :=
               obj_assign (jsChunksByName m) (the (chunk_name c)) (files0 (chunk_files c)),
             cssChunksByName := css_loop (chunk_files c) (the (chunk_name c)) 1 (cssChunksByName m)\<rparr>
         else m)
      in m1\<lparr>jsChunksById := (jsChunksById m1)(chunk_id c \<mapsto> files0 (chunk_files c))\<rparr>)"

definition statsToManifest :: "stats \<Rightarrow> manifest" where
  "statsToManifest s =
     foldl manifest_step
       \<lparr>jsChunksByName = Map.empty, jsChunksById = Map.empty,
        cssChunksByName = Map.empty, manifest_hash = stats_hash s\<rparr>
       (stats_chunks s)"

section \<open>Text produced by the generator\<close>

text \<open>
  \<open>JSON.stringify\<close> on the values above. It gives \<open>undefined\<close> (here \<open>None\<close>) for
  \<open>undefined\<close>; inside an array \<open>undefined\<close> is written \<open>null\<close>, and a property whose
  value is \<open>undefined\<close> is left out. An infinite number is written \<open>null\<close>. A string is
  quoted, with the quotation mark, the backslash and the control characters escaped.
\<close>

definition hex_digit :: "nat \<Rightarrow> char" where
  "hex_digit d = (if d < 10 then char_of (48 + d) else char_of (87 + d))"

definition json_escape_char :: "char \<Rightarrow> string" where
  "json_escape_char c =
     (if c = CHR 0x22 then [CHR 0x5C, CHR 0x22]
      else if c = CHR 0x5C then [CHR 0x5C, CHR 0x5C]
      else if c = CHR 0x08 then [CHR 0x5C, CHR ''b'']
      else if c = CHR 0x0C then [CHR 0x5C, CHR ''f'']
      else if c = CHR 0x0A then [CHR 0x5C, CHR ''n'']
      else if c = CHR 0x0D then [CHR 0x5C, CHR ''r'']
      else if c = CHR 0x09 then [CHR 0x5C, CHR ''t'']
      else if (of_char c :: nat) < 32 then
        [CHR 0x5C, CHR ''u'', CHR ''0'', CHR ''0'',
         hex_digit ((of_char c :: nat) div 16), hex_digit ((of_char c :: nat) mod 16)]
      else [c])"

definition quote_json_string :: "string \<Rightarrow> string" where
  "quote_json_string s = CHR 0x22 # concat (map json_escape_char s) @ [CHR 0x22]"

text \<open>
  The text of a number, as \<open>Number.prototype.toString\<close> and \<open>JSON.stringify\<close> write it.
  An integer below \<open>2^53\<close> is a double as it is and is written with all its digits. A
  larger one is first rounded to the nearest double (ties to the even mantissa), and
  what is written is the decimal with the fewest significant digits that still rounds
  to that double (the nearest such, 17 digits always being enough): with its zeros
  when it has at most 21 digits, in exponent form otherwise. From \<open>2^1024\<close> on the
  rounded value is \<open>Infinity\<close>, which JSON writes as \<open>null\<close>.
\<close>

definition decimal_digit :: "int \<Rightarrow> char" where
  "decimal_digit d = char_of (48 + d)"

function decimal :: "int \<Rightarrow> string" where
  "decimal n =
     (if 10 \<le> n then decimal (n div 10) @ [decimal_digit (n mod 10)] else [decimal_digit n])"
  by pat_completeness auto
termination
  by (relation "measure nat") auto

declare decimal.simps [simp del]

function bit_count :: "int \<Rightarrow> nat" where
  "bit_count n = (if 0 < n then Suc (bit_count (n div 2)) else 0)"
  by pat_completeness auto
termination
  by (relation "measure nat") auto

declare bit_count.simps [simp del]

definition round_double :: "int \<Rightarrow> int" where
  "round_double n =
     (if n < 2 ^ 53 then n
      else (let shift = bit_count n - 53;
                q = n div 2 ^ shift;
                r = n mod 2 ^ shift;
                half = 2 ^ (shift - 1)
            in (if half < r \<or> (r = half \<and> odd q) then q + 1 else q) * 2 ^ shift))"

definition overflows :: "int \<Rightarrow> bool" where
  "overflows n = (2 ^ 1024 \<le> round_double n)"

text \<open>
  The decimal of \<open>k\<close> significant digits nearest to the double \<open>x\<close>, when one of the two
  around \<open>x\<close> rounds to \<open>x\<close>.
\<close>

definition decimal_near :: "int \<Rightarrow> nat \<Rightarrow> int option" where
  "decimal_near x k =
     (let p = length (decimal x) - k;
          lo = (x div 10 ^ p) * 10 ^ p;
          hi = lo + 10 ^ p;
          lo_ok = (round_double lo = x);
          hi_ok = (round_double hi = x)
      in if lo_ok \<and> hi_ok then
           (if x - lo < hi - x \<or> (x - lo = hi - x \<and> even (lo div 10 ^ p)) then Some lo
            else Some hi)
         else if lo_ok then Some lo
         else if hi_ok then Some hi
         else None)"

definition shortest_decimal :: "int \<Rightarrow> int" where
  "shortest_decimal x =
     (case List.map_filter (decimal_near x) [1 ..< 18] of [] \<Rightarrow> x | v # _ \<Rightarrow> v)"

definition exponent_text :: "int \<Rightarrow> string" where
  "exponent_text v =
     (let ds = decimal v;
          s = rev (dropWhile (\<lambda>c. c = CHR ''0'') (rev ds))
      in hd s # (if tl s = [] then [] else CHR ''.'' # tl s) @ ''e+'' @
         decimal (int (length ds) - 1))"

definition magnitude_text :: "int \<Rightarrow> string" where
  "magnitude_text n =
     (if n < 2 ^ 53 then decimal n
      else (let v = shortest_decimal (round_double n)
            in if length (decimal v) \<le> 21 then decimal v else exponent_text v))"

definition number_text :: "int \<Rightarrow> string" where
  "number_text i = (if 0 \<le> i then magnitude_text i else CHR ''-'' # magnitude_text (- i))"

text \<open>\<open>Array.prototype.join\<close> on an array of strings.\<close>

fun js_join :: "string \<Rightarrow> string list \<Rightarrow> string" where
  "js_join sep [] = []"
| "js_join sep [x] = x"
| "js_join sep (x # y # ys) = x @ sep @ js_join sep (y # ys)"

fun JSON_stringify :: "jsval \<Rightarrow> string option" where
  "JSON_stringify JUndefined = None"
| "JSON_stringify JNull = Some ''null''"
| "JSON_stringify (JBool b) = Some (if b then ''true'' else ''false'')"
| "JSON_stringify (JNum n) = Some (if overflows \<bar>n\<bar> then ''null'' else number_text n)"
| "JSON_stringify (JStr s) = Some (quote_json_string s)"
| "JSON_stringify (JArr xs) =
     Some (''['' @
       js_join '',''
         (map (\<lambda>x. case JSON_stringify x of None \<Rightarrow> ''null'' | Some t \<Rightarrow> t) xs)
       @ '']'')"
| "JSON_stringify (JObj ps) =
     Some (''{'' @
       js_join '',''
         (concat (map (\<lambda>p. case JSON_stringify (snd p) of
                               None \<Rightarrow> []
                             | Some t \<Rightarrow> [quote_json_string (fst p) @ '':'' @ t]) ps))
       @ ''}'')"

text \<open>
  A substitution \<open>${e}\<close> of a template literal, for an expression that is a string or
  \<open>undefined\<close>: \<open>undefined\<close> is written out as the word.
\<close>

definition interp :: "string option \<Rightarrow> string" where
  "interp r = (case r of None \<Rightarrow> ''undefined'' | Some t \<Rightarrow> t)"

definition NL :: string where
  "NL = [CHR 0x0A]"

definition tabs :: "nat \<Rightarrow> string" where
  "tabs k = replicate k (CHR 0x09)"

definition DQ :: string where
  "DQ = [CHR 0x22]"

section \<open>Property reads and the method of a route\<close>

text \<open>
  A property read \<open>v.p\<close> for the properties this program and the code it generates
  read (\<open>length\<close>, \<open>__esModule\<close>, \<open>default\<close>, \<open>stack\<close>): a \<open>TypeError\<close> on \<open>undefined\<close> and
  \<open>null\<close>, the number of code units or elements for \<open>length\<close> of a string or an array,
  the property's value for an object that has it, \<open>undefined\<close> otherwise. The wording of
  the error message is the engine's.
\<close>

fun js_get :: "jsval \<Rightarrow> string \<Rightarrow> js_error + jsval" where
  "js_get JUndefined p = Inl (TypeError (''Cannot read property '' @ p @ '' of undefined''))"
| "js_get JNull p = Inl (TypeError (''Cannot read property '' @ p @ '' of null''))"
| "js_get (JStr s) p = Inr (if p = ''length'' then JNum (int (length s)) else JUndefined)"
| "js_get (JArr xs) p = Inr (if p = ''length'' then JNum (int (length xs)) else JUndefined)"
| "js_get (JObj ps) p = Inr (case map_of ps p of None \<Rightarrow> JUndefined | Some v \<Rightarrow> v)"
| "js_get (JBool b) p = Inr JUndefined"
| "js_get (JNum n) p = Inr JUndefined"

text \<open>
  \<open>method === {}\<close>: strict equality with an object is true only for that same object,
  never for a primitive or for another object of the same shape; the object literal on
  the right creates a new object each time the expression is evaluated, so no value
  that \<open>method\<close> holds is equal to it.
\<close>

definition strict_equals_new_object :: "jsval \<Rightarrow> bool" where
  "strict_equals_new_object v = False"

text \<open>
  The condition
  \<open>method === undefined || method === null || method === {} || method.length === 0\<close>,
  evaluated from left to right.
\<close>

definition method_is_empty :: "jsval \<Rightarrow> js_error + bool" where
  "method_is_empty method =
     (if method = JUndefined then Inr True
      else if method = JNull then Inr True
      else if strict_equals_new_object method then Inr True
      else (case js_get method ''length'' of
              Inl e \<Rightarrow> Inl e
            | Inr l \<Rightarrow> Inr (l = JNum 0)))"

definition normalize_method :: "jsval \<Rightarrow> js_error + jsval" where
  "normalize_method method =
     (case method_is_empty method of
        Inl e \<Rightarrow> Inl e
      | Inr b \<Rightarrow> Inr (if b then JUndefined else method))"

section \<open>Route tables\<close>

datatype page_ref = PageModule string | PageFormats "(string \<times> string) list"

record route =
  route_path :: jsval
  route_method :: jsval
  route_page :: page_ref

text \<open>
  \<open>routes.middleware\<close> (\<open>None\<close> when absent) and \<open>routes.routes\<close>, the routes by name in
  the order of \<open>Object.keys\<close>.
\<close>

record routes_table =
  routes_middleware :: "string list option"
  routes_routes :: "(string \<times> route) list"

definition normalizeRoutesPage :: "page_ref \<Rightarrow> (string \<times> string) list" where
  "normalizeRoutesPage page =
     (case page of PageModule p \<Rightarrow> [(''default'', p)] | PageFormats fs \<Rightarrow> fs)"

section \<open>The environment of a compile\<close>

text \<open>
  What the compile step takes from Node and from the rest of the package:
  \<open>process.cwd()\<close>, \<open>path.resolve\<close> and \<open>path.relative\<close>, \<open>require.resolve\<close> (which throws
  for a module it cannot locate), the user's override module
  (\<open>require(p).default\<close>, \<open>None\<close> when the module has no such export), the base
  configuration factory \<open>webpack/webpack.config.fn.js\<close> and \<open>webpack\<close> itself. The
  bundler's configuration and compiler are opaque.
\<close>

record wp_opts =
  wp_isServer :: bool
  wp_outputDir :: string
  wp_entrypoints :: "string \<rightharpoonup> string list"
  wp_outputUrl :: string
  wp_hot :: bool
  wp_minify :: bool
  wp_longTermCaching :: bool
  wp_stats :: bool

record ('cfg, 'cmp) node_env =
  process_cwd :: string
  path_resolve :: "string list \<Rightarrow> string"
  path_relative :: "string \<Rightarrow> string \<Rightarrow> string"
  require_resolve :: "string \<Rightarrow> js_error + string"
  require_default :: "string \<Rightarrow> js_error + ('cfg \<Rightarrow> js_error + 'cfg) option"
  base_config :: "wp_opts \<Rightarrow> js_error + 'cfg"
  webpack :: "'cfg \<Rightarrow> js_error + 'cmp"

text \<open>The calls that change the file system, in the order they are made.\<close>

datatype fs_op = Mkdirp string | WriteFile string string

section \<open>Entrypoints\<close>

text \<open>\<open>/^\/\//.test(outputUrl)\<close>: the URL starts with two slashes.\<close>

definition protocol_relative :: "string \<Rightarrow> bool" where
  "protocol_relative url = (take 2 url = ''//'')"

definition webpackDevServerClientUrl :: "string \<Rightarrow> string" where
  "webpackDevServerClientUrl outputUrl =
     (if protocol_relative outputUrl then ''http:'' @ outputUrl else outputUrl)"

definition entrypointBase ::
  "('cfg, 'cmp) node_env \<Rightarrow> bool \<Rightarrow> string \<Rightarrow> js_error + string list" where
  "entrypointBase env hot outputUrl =
     (if hot then
        (case require_resolve env ''webpack-dev-server/client'' of
           Inl e \<Rightarrow> Inl e
         | Inr client \<Rightarrow>
             (case require_resolve env ''webpack/hot/only-dev-server'' of
                Inl e \<Rightarrow> Inl e
              | Inr only \<Rightarrow> Inr [client @ ''?'' @ webpackDevServerClientUrl outputUrl, only]))
      else Inr [])"

text \<open>The name \<open>`${routeName}${format !== "default" ? "-" + format : ""}`\<close>.\<close>

definition entry_name :: "string \<Rightarrow> string \<Rightarrow> string" where
  "entry_name routeName format =
     routeName @ (if format \<noteq> ''default'' then ''-'' @ format else [])"

text \<open>
  The inner loop \<open>for (let format of Object.keys(formats))\<close> and the outer loop over
  the routes; a page module that cannot be located ends both with the error.
\<close>

fun entrypoints_formats ::
  "('cfg, 'cmp) node_env \<Rightarrow> string \<Rightarrow> string list \<Rightarrow> string \<Rightarrow> string \<Rightarrow>
   (string \<times> string) list \<Rightarrow> (string \<rightharpoonup> string list) \<Rightarrow>
   js_error + (string \<rightharpoonup> string list)" where
  "entrypoints_formats env routesDirAbsolute base bootstrapFile routeName [] eps = Inr eps"
| "entrypoints_formats env routesDirAbsolute base bootstrapFile routeName ((format, m) # fs) eps =
     (case require_resolve env (path_resolve env [routesDirAbsolute, m]) of
        Inl e \<Rightarrow> Inl e
      | Inr absolutePathToPage \<Rightarrow>
          entrypoints_formats env routesDirAbsolute base bootstrapFile routeName fs
            (obj_assign eps (entry_name routeName format)
               (base @ [bootstrapFile, absolutePathToPage])))"

fun entrypoints_routes ::
  "('cfg, 'cmp) node_env \<Rightarrow> string \<Rightarrow> string list \<Rightarrow> string \<Rightarrow>
   (string \<times> route) list \<Rightarrow> (string \<rightharpoonup> string list) \<Rightarrow>
   js_error + (string \<rightharpoonup> string list)" where
  "entrypoints_routes env routesDirAbsolute base bootstrapFile [] eps = Inr eps"
| "entrypoints_routes env routesDirAbsolute base bootstrapFile ((routeName, r) # rs) eps =
     (case entrypoints_formats env routesDirAbsolute base bootstrapFile routeName
             (normalizeRoutesPage (route_page r)) eps of
        Inl e \<Rightarrow> Inl e
      | Inr eps' \<Rightarrow> entrypoints_routes env routesDirAbsolute base bootstrapFile rs eps')"

definition entrypoints ::
  "('cfg, 'cmp) node_env \<Rightarrow> bool \<Rightarrow> string \<Rightarrow> string \<Rightarrow> string \<Rightarrow> routes_table \<Rightarrow>
   js_error + (string \<rightharpoonup> string list)" where
  "entrypoints env hot outputUrl routesDirAbsolute bootstrapFile routes =
     (case entrypointBase env hot outputUrl of
        Inl e \<Rightarrow> Inl e
      | Inr base \<Rightarrow>
          entrypoints_routes env routesDirAbsolute base bootstrapFile (routes_routes routes)
            Map.empty)"

section \<open>The routes file: \<open>writeWebpackCompatibleRoutesFile\<close>\<close>

text \<open>The path of a module as the routes file names it, already a JSON string.\<close>

definition relative_module ::
  "('cfg, 'cmp) node_env \<Rightarrow> string \<Rightarrow> string \<Rightarrow> string \<Rightarrow> string" where
  "relative_module env routesDir workingDirAbsolute m =
     interp (JSON_stringify
       (JStr (path_relative env workingDirAbsolute (path_resolve env [routesDir, m]))))"

definition existingMiddleware ::
  "('cfg, 'cmp) node_env \<Rightarrow> routes_table \<Rightarrow> string \<Rightarrow> string \<Rightarrow> string list" where
  "existingMiddleware env routes routesDir workingDirAbsolute =
     (case routes_middleware routes of
        None \<Rightarrow> []
      | Some ms \<Rightarrow>
          map (\<lambda>middlewareRelativePath.
                 ''unwrapEs6Module(require('' @
                 relative_module env routesDir workingDirAbsolute middlewareRelativePath @
                 ''))'') ms)"

definition routes_prologue :: "string \<Rightarrow> jsval \<Rightarrow> jsval \<Rightarrow> string list \<Rightarrow> string" where
  "routes_prologue coreMiddleware staticUrl manifest middleware =
     NL @ ''var manifest = '' @
       (if truthy manifest then interp (JSON_stringify manifest) else ''undefined'') @ '';'' @
     NL @ ''function unwrapEs6Module(module) { return module.__esModule ? module.default : module }'' @
     NL @ ''var coreJsMiddleware = require('' @ coreMiddleware @ '').coreJsMiddleware;'' @
     NL @ ''var coreCssMiddleware = require('' @ coreMiddleware @ '').coreCssMiddleware;'' @
     NL @ ''module.exports = {'' @
     NL @ tabs 1 @ ''middleware:['' @
     NL @ tabs 2 @ ''coreJsMiddleware('' @ interp (JSON_stringify staticUrl) @ '', manifest),'' @
     NL @ tabs 2 @ ''coreCssMiddleware('' @ interp (JSON_stringify staticUrl) @ '', manifest),'' @
     NL @ tabs 2 @ js_join '','' middleware @
     NL @ tabs 1 @ ''],'' @
     NL @ tabs 1 @ ''routes:{''"

definition route_open :: "string \<Rightarrow> jsval \<Rightarrow> jsval \<Rightarrow> string" where
  "route_open routeName path method =
     NL @ tabs 2 @ routeName @ '': {'' @
     NL @ tabs 3 @ ''path: '' @ interp (JSON_stringify path) @ '','' @
     NL @ tabs 3 @ ''method: '' @ interp (JSON_stringify method) @ '',''"

definition page_open :: string where
  "page_open = NL @ tabs 3 @ ''page: {''"

definition format_open :: "string \<Rightarrow> string" where
  "format_open format =
     NL @ tabs 4 @ format @ '': function() {'' @
     NL @ tabs 5 @ ''return {'' @
     NL @ tabs 6 @ ''done: function(cb) {''"

definition client_done_source :: "string \<Rightarrow> string" where
  "client_done_source relativePathToPage =
     NL @ tabs 7 @ ''require.ensure('' @ relativePathToPage @ '', function() {'' @
     NL @ tabs 8 @ ''cb(unwrapEs6Module(require('' @ relativePathToPage @ '')));'' @
     NL @ tabs 7 @ ''});''"

definition server_done_source :: "string \<Rightarrow> string" where
  "server_done_source relativePathToPage =
     NL @ tabs 7 @ ''try {'' @
     NL @ tabs 8 @ ''cb(unwrapEs6Module(require('' @ relativePathToPage @ '')));'' @
     NL @ tabs 7 @ ''} catch (e) {'' @
     NL @ tabs 8 @ ''console.error('' @ [CHR 0x27] @ ''Failed to load page at '' @
       relativePathToPage @ [CHR 0x27] @ '', e.stack);'' @
     NL @ tabs 7 @ ''}''"

definition format_close :: string where
  "format_close =
     NL @ tabs 6 @ ''}'' @
     NL @ tabs 5 @ ''};'' @
     NL @ tabs 4 @ ''},''"

definition route_close :: string where
  "route_close =
     NL @ tabs 3 @ ''},'' @
     NL @ tabs 2 @ ''},''"

definition routes_epilogue :: string where
  "routes_epilogue =
     NL @ tabs 1 @ ''}'' @
     NL @ ''};''"

text \<open>What the loop over the formats of one route pushes onto \<open>routesOutput\<close>.\<close>

definition format_output ::
  "('cfg, 'cmp) node_env \<Rightarrow> string \<Rightarrow> string \<Rightarrow> bool \<Rightarrow> string \<times> string \<Rightarrow> string list" where
  "format_output env routesDir workingDirAbsolute isClient fm =
     (let relativePathToPage = relative_module env routesDir workingDirAbsolute (snd fm)
      in [format_open (fst fm),
          (if isClient then client_done_source relativePathToPage
           else server_done_source relativePathToPage),
          format_close])"

text \<open>What one iteration of the loop over the routes pushes.\<close>

definition route_output ::
  "('cfg, 'cmp) node_env \<Rightarrow> string \<Rightarrow> string \<Rightarrow> bool \<Rightarrow> string \<times> route \<Rightarrow>
   js_error + string list" where
  "route_output env routesDir workingDirAbsolute isClient nr =
     (case normalize_method (route_method (snd nr)) of
        Inl e \<Rightarrow> Inl e
      | Inr method \<Rightarrow>
          Inr ([route_open (fst nr) (route_path (snd nr)) method, page_open] @
               concat (map (format_output env routesDir workingDirAbsolute isClient)
                         (normalizeRoutesPage (route_page (snd nr)))) @
               [route_close]))"

fun routes_output ::
  "('cfg, 'cmp) node_env \<Rightarrow> string \<Rightarrow> string \<Rightarrow> bool \<Rightarrow> (string \<times> route) list \<Rightarrow>
   string list \<Rightarrow> js_error + string list" where
  "routes_output env routesDir workingDirAbsolute isClient [] routesOutput = Inr routesOutput"
| "routes_output env routesDir workingDirAbsolute isClient (nr # rs) routesOutput =
     (case route_output env routesDir workingDirAbsolute isClient nr of
        Inl e \<Rightarrow> Inl e
      | Inr out \<Rightarrow>
          routes_output env routesDir workingDirAbsolute isClient rs (routesOutput @ out))"

text \<open>The content of the routes file, \<open>routesOutput.join("")\<close>.\<close>

definition routesContent ::
  "('cfg, 'cmp) node_env \<Rightarrow> routes_table \<Rightarrow> string \<Rightarrow> string \<Rightarrow> jsval \<Rightarrow> bool \<Rightarrow> jsval \<Rightarrow>
   js_error + string" where
  "routesContent env routes routesDir workingDirAbsolute staticUrl isClient manifest =
     (case require_resolve env ''react-server-core-middleware'' of
        Inl e \<Rightarrow> Inl e
      | Inr core \<Rightarrow>
          (case routes_output env routesDir workingDirAbsolute isClient (routes_routes routes)
                  [routes_prologue (interp (JSON_stringify (JStr core))) staticUrl manifest
                     (existingMiddleware env routes routesDir workingDirAbsolute)] of
             Inl e \<Rightarrow> Inl e
           | Inr routesOutput \<Rightarrow> Inr (concat (routesOutput @ [routes_epilogue]))))"

text \<open>
  The whole function: it returns the path of the file it has written, or throws; the
  second component is the file system calls made so far.
\<close>

definition writeWebpackCompatibleRoutesFile ::
  "('cfg, 'cmp) node_env \<Rightarrow> routes_table \<Rightarrow> string \<Rightarrow> string \<Rightarrow> jsval \<Rightarrow> bool \<Rightarrow> jsval \<Rightarrow>
   fs_op list \<Rightarrow> (js_error + string) \<times> fs_op list" where
  "writeWebpackCompatibleRoutesFile env routes routesDir workingDirAbsolute staticUrl isClient
       manifest fs =
     (case routesContent env routes routesDir workingDirAbsolute staticUrl isClient manifest of
        Inl e \<Rightarrow> (Inl e, fs)
      | Inr content \<Rightarrow>
          (let routesFilePath =
                 workingDirAbsolute @ ''/routes_'' @ (if isClient then ''client'' else ''server'') @ ''.js''
           in (Inr routesFilePath, fs @ [WriteFile routesFilePath content])))"

section \<open>The compile step\<close>

text \<open>
  The options object. A field that is \<open>undefined\<close> is \<open>None\<close> and takes the default of the
  destructuring; \<open>opt_webpack_config\<close> is the property \<open>'webpack-config'\<close>.
\<close>

record compile_opts =
  opt_routes :: routes_table
  opt_webpackConfig :: "string option"
  opt_webpack_config :: "string option"
  opt_workingDir :: "string option"
  opt_routesDir :: "string option"
  opt_outputDir :: "string option"
  opt_outputUrl :: "string option"
  opt_hot :: "bool option"
  opt_minify :: "bool option"
  opt_stats :: "bool option"
  opt_longTermCaching :: "bool option"
  opt_logLevel :: jsval
  opt_timingLogLevel :: jsval
  opt_gaugeLogLevel :: jsval

definition or_default :: "'a \<Rightarrow> 'a option \<Rightarrow> 'a" where
  "or_default d v = (case v of None \<Rightarrow> d | Some x \<Rightarrow> x)"

text \<open>Truthiness of an optional path: \<open>undefined\<close> and the empty string are falsy.\<close>

definition truthy_path :: "string option \<Rightarrow> bool" where
  "truthy_path v = (case v of None \<Rightarrow> False | Some p \<Rightarrow> p \<noteq> [])"

text \<open>\<open>webpackConfig || opts['webpack-config']\<close>.\<close>

definition userWebpackConfigOpt :: "compile_opts \<Rightarrow> string option" where
  "userWebpackConfigOpt opts =
     (if truthy_path (opt_webpackConfig opts) then opt_webpackConfig opts
      else opt_webpack_config opts)"

definition bootstrap_content :: "compile_opts \<Rightarrow> string" where
  "bootstrap_content opts =
     NL @ tabs 2 @ ''if (typeof window !== '' @ DQ @ ''undefined'' @ DQ @ '') {'' @
     NL @ tabs 3 @ ''window.__setReactServerBase = function(path) {'' @
     NL @ tabs 4 @ ''// according to http://webpack.github.io/docs/configuration.html#output-publicpath'' @
     NL @ tabs 4 @ ''// we should never set __webpack_public_path__ when hot module replacement is on.'' @
     NL @ tabs 4 @ ''if (!module.hot) {'' @
     NL @ tabs 5 @ ''__webpack_public_path__ = path;'' @
     NL @ tabs 4 @ ''}'' @
     NL @ tabs 4 @ ''window.__reactServerBase = path;'' @
     NL @ tabs 3 @ ''}'' @
     NL @ tabs 2 @ ''}'' @
     NL @ tabs 2 @ ''var reactServer = require('' @ DQ @ ''react-server'' @ DQ @ '');'' @
     NL @ tabs 2 @ ''window.rfBootstrap = function() {'' @
     NL @ tabs 3 @ ''reactServer.logging.setLevel('' @ [CHR 0x27] @ ''main'' @ [CHR 0x27] @ '',  '' @
       interp (JSON_stringify (opt_logLevel opts)) @ '');'' @
     NL @ tabs 3 @ ''reactServer.logging.setLevel('' @ [CHR 0x27] @ ''time'' @ [CHR 0x27] @ '',  '' @
       interp (JSON_stringify (opt_timingLogLevel opts)) @ '');'' @
     NL @ tabs 3 @ ''reactServer.logging.setLevel('' @ [CHR 0x27] @ ''gauge'' @ [CHR 0x27] @ '', '' @
       interp (JSON_stringify (opt_gaugeLogLevel opts)) @ '');'' @
     NL @ tabs 3 @ ''new reactServer.ClientController({routes: require('' @ DQ @ ''./routes_client'' @ DQ @
       '')}).init();'' @
     NL @ tabs 2 @ ''}''"

definition writeClientBootstrapFile ::
  "string \<Rightarrow> compile_opts \<Rightarrow> fs_op list \<Rightarrow> string \<times> fs_op list" where
  "writeClientBootstrapFile outputDir opts fs =
     (let outputFile = outputDir @ ''/entry.js''
      in (outputFile, fs @ [WriteFile outputFile (bootstrap_content opts)]))"

definition getWebpackConfig ::
  "('cfg, 'cmp) node_env \<Rightarrow> string option \<Rightarrow> wp_opts \<Rightarrow> js_error + 'cfg" where
  "getWebpackConfig env userOpt wpAffectingOpts =
     (case (if truthy_path userOpt
            then require_default env (path_resolve env [process_cwd env, the userOpt])
            else Inr (Some Inr)) of
        Inl e \<Rightarrow> Inl e
      | Inr extend' \<Rightarrow>
          (case base_config env wpAffectingOpts of
             Inl e \<Rightarrow> Inl e
           | Inr baseConfig \<Rightarrow>
               (case extend' of
                  None \<Rightarrow> Inl (TypeError ''extend is not a function'')
                | Some f \<Rightarrow> f baseConfig)))"

text \<open>
  The default export of the module, up to the point where it returns: the compiler it
  hands back is ready to be run, and the promise \<open>serverRoutes\<close> is settled only by the
  bundler's \<open>done\<close> event, after the call has returned. The second component of the result
  is the file system calls made, \<open>fs\<close> being those made before the call.
\<close>

definition compileClient ::
  "('cfg, 'cmp) node_env \<Rightarrow> compile_opts \<Rightarrow> fs_op list \<Rightarrow> (js_error + 'cmp) \<times> fs_op list" where
  "compileClient env opts fs =
     (let routes = opt_routes opts;
          workingDir = or_default ''./__clientTemp'' (opt_workingDir opts);
          routesDir = or_default ''.'' (opt_routesDir opts);
          outputDir = or_default (workingDir @ ''/build'') (opt_outputDir opts);
          outputUrl = or_default ''/static/'' (opt_outputUrl opts);
          hot = or_default True (opt_hot opts);
          minify = or_default False (opt_minify opts);
          stats = or_default False (opt_stats opts);
          longTermCaching = or_default False (opt_longTermCaching opts)
      in if longTermCaching \<and> hot then
           (Inl (Error (''Hot reload cannot be used with long-term caching. '' @
                        ''Please disable either long-term caching or hot reload.'')), fs)
         else
           (let workingDirAbsolute = path_resolve env [process_cwd env, workingDir];
                fs1 = fs @ [Mkdirp workingDirAbsolute];
                outputDirAbsolute = path_resolve env [process_cwd env, outputDir];
                fs2 = fs1 @ [Mkdirp outputDirAbsolute];
                routesDirAbsolute = path_resolve env [process_cwd env, routesDir];
                (bootstrapFile, fs3) = writeClientBootstrapFile workingDirAbsolute opts fs2
            in case entrypoints env hot outputUrl routesDirAbsolute bootstrapFile routes of
                 Inl e \<Rightarrow> (Inl e, fs3)
               | Inr eps \<Rightarrow>
                   (case writeWebpackCompatibleRoutesFile env routes routesDir workingDirAbsolute
                           JNull True JUndefined fs3 of
                      (Inl e, fs4) \<Rightarrow> (Inl e, fs4)
                    | (Inr routesFile, fs4) \<Rightarrow>
                        (case getWebpackConfig env (userWebpackConfigOpt opts)
                                \<lparr>wp_isServer = False, wp_outputDir = outputDirAbsolute,
                                 wp_entrypoints = eps, wp_outputUrl = outputUrl, wp_hot = hot,
                                 wp_minify = minify, wp_longTermCaching = longTermCaching,
                                 wp_stats = stats\<rparr> of
                           Inl e \<Rightarrow> (Inl e, fs4)
                         | Inr clientConfig \<Rightarrow>
                             (case webpack env clientConfig of
                                Inl e \<Rightarrow> (Inl e, fs4)
                              | Inr compiler \<Rightarrow> (Inr compiler, fs4))))))"

section \<open>The loader the server routes file holds\<close>

text \<open>
  What running the generated code does is a computation over the events seen from
  outside: the calls of the callback and the lines written by \<open>console.error\<close>. A
  computation ends with a value or with something thrown. Anything can be thrown: an
  error object (made by \<open>new Error\<close>, by the engine or by \<open>require\<close>), or any other value.
\<close>

datatype thrown = ErrorObject js_error | Value jsval

text \<open>
  The second argument of the line that the handler logs, \<open>e.stack\<close>: the stack trace of
  an error object, or the property \<open>stack\<close> of another value, \<open>undefined\<close> where it has
  none. Reading the property of \<open>null\<close> or \<open>undefined\<close> throws a \<open>TypeError\<close>.
\<close>

datatype logged = Trace js_error | Plain jsval

definition read_stack :: "thrown \<Rightarrow> thrown + logged" where
  "read_stack e =
     (case e of
        ErrorObject err \<Rightarrow> Inr (Trace err)
      | Value v \<Rightarrow>
          (case js_get v ''stack'' of
             Inl type_error \<Rightarrow> Inl (ErrorObject type_error)
           | Inr s \<Rightarrow> Inr (Plain s)))"

datatype event = Invoked jsval | ConsoleError string logged

type_synonym 'a run = "event list \<Rightarrow> (thrown + 'a) \<times> event list"

definition try_catch :: "unit run \<Rightarrow> (thrown \<Rightarrow> unit run) \<Rightarrow> unit run" where
  "try_catch body handler t =
     (case body t of
        (Inl e, t') \<Rightarrow> handler e t'
      | (Inr u, t') \<Rightarrow> (Inr u, t'))"

definition console_error :: "string \<Rightarrow> logged \<Rightarrow> unit run" where
  "console_error msg l t = (Inr (), t @ [ConsoleError msg l])"

text \<open>The call \<open>cb(v)\<close> of a callback, itself any computation.\<close>

definition invoke :: "(jsval \<Rightarrow> unit run) \<Rightarrow> jsval \<Rightarrow> unit run" where
  "invoke cb v t = cb v (t @ [Invoked v])"

text \<open>\<open>function unwrapEs6Module(module) { return module.__esModule ? module.default : module }\<close>\<close>

definition unwrapEs6Module :: "jsval \<Rightarrow> js_error + jsval" where
  "unwrapEs6Module module =
     (case js_get module ''__esModule'' of
        Inl e \<Rightarrow> Inl e
      | Inr flag \<Rightarrow> if truthy flag then js_get module ''default'' else Inr module)"

text \<open>
  The handler \<open>catch (e) { console.error(msg, e.stack); }\<close>: the arguments are evaluated
  before the call, so when reading \<open>e.stack\<close> throws, nothing is logged and the error
  leaves the handler.
\<close>

definition log_failure :: "string \<Rightarrow> thrown \<Rightarrow> unit run" where
  "log_failure msg e t =
     (case read_stack e of
        Inl type_error \<Rightarrow> (Inl type_error, t)
      | Inr l \<Rightarrow> console_error msg l t)"

text \<open>
  The body of \<open>done\<close> that \<open>server_done_source\<close> writes for the page at the relative path
  \<open>p\<close>: \<open>try { cb(unwrapEs6Module(require(p))); } catch (e) { console.error(msg, e.stack); }\<close>.
  In the file the path stands as its JSON text. Between the double quotes of
  \<open>require(...)\<close> that text is a string literal for \<open>p\<close>. In the message it stands, with
  its quotation marks, inside a literal in single quotes: the escapes of JSON are
  escapes of the language there too, but an apostrophe of the path, which JSON leaves as
  it is, ends the literal. The file is then no program and there is no \<open>done\<close> to run
  (\<open>None\<close>). \<open>require\<close> runs the page module, which may throw.
\<close>

definition server_done ::
  "(string \<Rightarrow> jsval run) \<Rightarrow> string \<Rightarrow> (jsval \<Rightarrow> unit run) \<Rightarrow> unit run option" where
  "server_done require p cb =
     (if CHR 0x27 \<in> set p then None
      else Some
        (try_catch
           (\<lambda>t. case require p t of
                   (Inl e, t1) \<Rightarrow> (Inl e, t1)
                 | (Inr module, t1) \<Rightarrow>
                     (case unwrapEs6Module module of
                        Inl type_error \<Rightarrow> (Inl (ErrorObject type_error), t1)
                      | Inr page \<Rightarrow> invoke cb page t1))
           (log_failure (''Failed to load page at '' @ DQ @ p @ DQ))))"

section \<open>A POSIX environment\<close>

text \<open>
  Node's \<open>path.resolve\<close> and \<open>path.relative\<close> on POSIX, for running the definitions on
  concrete paths: the arguments are taken from the right up to the first absolute one
  (the working directory standing before them all), and the segments \<open>.\<close>, \<open>..\<close> and the
  empty ones are resolved.
\<close>

fun split_slash :: "string \<Rightarrow> string list" where
  "split_slash [] = [[]]"
| "split_slash (c # cs) =
     (if c = CHR ''/'' then [] # split_slash cs
      else (case split_slash cs of [] \<Rightarrow> [[c]] | s # ss \<Rightarrow> (c # s) # ss))"

fun normalize_segments :: "bool \<Rightarrow> string list \<Rightarrow> string list \<Rightarrow> string list" where
  "normalize_segments allowAboveRoot [] acc = rev acc"
| "normalize_segments allowAboveRoot (s # ss) acc =
     (if s = [] \<or> s = ''.'' then normalize_segments allowAboveRoot ss acc
      else if s = ''..'' then
        (case acc of
           [] \<Rightarrow> normalize_segments allowAboveRoot ss (if allowAboveRoot then [''..''] else [])
         | a # as \<Rightarrow>
             if a = ''..'' then normalize_segments allowAboveRoot ss (''..'' # acc)
             else normalize_segments allowAboveRoot ss as)
      else normalize_segments allowAboveRoot ss (s # acc))"

fun resolve_scan :: "string list \<Rightarrow> string \<Rightarrow> string \<times> bool" where
  "resolve_scan [] acc = (acc, False)"
| "resolve_scan (p # ps) acc =
     (if p = [] then resolve_scan ps acc
      else if hd p = CHR ''/'' then (p @ ''/'' @ acc, True)
      else resolve_scan ps (p @ ''/'' @ acc))"

definition posix_resolve :: "string \<Rightarrow> string list \<Rightarrow> string" where
  "posix_resolve cwd args =
     (case resolve_scan (rev args @ [cwd]) [] of
        (p, absolute) \<Rightarrow>
          (let s = js_join ''/'' (normalize_segments (\<not> absolute) (split_slash p) [])
           in if absolute then ''/'' @ s else if s = [] then ''.'' else s))"

fun drop_common :: "string list \<Rightarrow> string list \<Rightarrow> string list \<times> string list" where
  "drop_common (x # xs) (y # ys) = (if x = y then drop_common xs ys else (x # xs, y # ys))"
| "drop_common xs ys = (xs, ys)"

definition posix_relative :: "string \<Rightarrow> string \<Rightarrow> string \<Rightarrow> string" where
  "posix_relative cwd from to =
     (let f = posix_resolve cwd [from]; t = posix_resolve cwd [to]
      in if f = t then []
         else (case drop_common (filter (\<lambda>s. s \<noteq> []) (split_slash f))
                                (filter (\<lambda>s. s \<noteq> []) (split_slash t)) of
                 (up, down) \<Rightarrow> js_join ''/'' (replicate (length up) ''..'' @ down)))"

text \<open>
  A process in \<open>/app\<close> in which every module is found (a path as it is, a package under
  \<open>/app/node_modules\<close>), no override changes the configuration, and the bundler's
  configuration and compiler are the options they were made from.
\<close>

definition app_env :: "(wp_opts, wp_opts) node_env" where
  "app_env =
     \<lparr>process_cwd = ''/app'',
      path_resolve = posix_resolve ''/app'',
      path_relative = posix_relative ''/app'',
      require_resolve = (\<lambda>m. Inr (if take 1 m = ''/'' then m else ''/app/node_modules/'' @ m)),
      require_default = (\<lambda>p. Inr (Some Inr)),
      base_config = Inr,
      webpack = Inr\<rparr>"


section \<open>Vocabulary of the statements\<close>

text \<open>A chunk none of whose files from index 1 on matches the CSS pattern.\<close>

definition no_css :: "chunk \<Rightarrow> bool" where
  "no_css c = (\<forall>j \<in> {1 ..< length (chunk_files c)}. \<not> css_test (chunk_files c ! j))"

text \<open>Two compilations to run the extraction on.\<close>

definition two_chunk_stats :: stats where
  "two_chunk_stats =
     \<lparr>stats_chunks =
        [\<lparr>chunk_id = 7, chunk_name = Some ''app'', chunk_files = [''app.3fa.js'', ''app.3fa.css'']\<rparr>,
         \<lparr>chunk_id = 9, chunk_name = None, chunk_files = [''9.c01.js'']\<rparr>],
      stats_hash = ''3fa91c''\<rparr>"

definition empty_chunk_stats :: stats where
  "empty_chunk_stats =
     \<lparr>stats_chunks =
        [\<lparr>chunk_id = 0, chunk_name = Some ''main'', chunk_files = [''main.js'', ''main.css'']\<rparr>,
         \<lparr>chunk_id = 4, chunk_name = Some ''lazy'', chunk_files = []\<rparr>],
      stats_hash = ''77aa''\<rparr>"

text \<open>
  The page module of a format as the entry names it, the (route, format, module) triples
  of a route table in the order the loops visit them, the name a triple composes and
  the module list it stores.
\<close>

definition resolve_page :: "('cfg, 'cmp) node_env \<Rightarrow> string \<Rightarrow> string \<Rightarrow> js_error + string" where
  "resolve_page env routesDirAbsolute m = require_resolve env (path_resolve env [routesDirAbsolute, m])"

definition route_pairs :: "(string \<times> route) list \<Rightarrow> (string \<times> string \<times> string) list" where
  "route_pairs rs =
     concat (map (\<lambda>nr. map (\<lambda>fm. (fst nr, fst fm, snd fm))
                          (normalizeRoutesPage (route_page (snd nr)))) rs)"

definition pair_name :: "string \<times> string \<times> string \<Rightarrow> string" where
  "pair_name q = entry_name (fst q) (fst (snd q))"

definition pair_entry ::
  "('cfg, 'cmp) node_env \<Rightarrow> string \<Rightarrow> string list \<Rightarrow> string \<Rightarrow> string \<times> string \<times> string \<Rightarrow> string list option" where
  "pair_entry env rda base boot q =
     (case resolve_page env rda (snd (snd q)) of
        Inl e \<Rightarrow> None
      | Inr a \<Rightarrow> Some (base @ [boot, a]))"

text \<open>The entry point set after the pairs \<open>qs\<close>, each pair assigning under its name.\<close>

fun pairs_map ::
  "('cfg, 'cmp) node_env \<Rightarrow> string \<Rightarrow> string list \<Rightarrow> string \<Rightarrow> (string \<times> string \<times> string) list \<Rightarrow>
   (string \<rightharpoonup> string list) \<Rightarrow> (string \<rightharpoonup> string list)" where
  "pairs_map env rda base boot [] eps = eps"
| "pairs_map env rda base boot (q # qs) eps =
     pairs_map env rda base boot qs
       (case pair_entry env rda base boot q of
          None \<Rightarrow> eps
        | Some modules \<Rightarrow> obj_assign eps (pair_name q) modules)"


text \<open>Route tables to run the definitions on, in the environment \<open>app_env\<close>.\<close>

definition site_routes :: routes_table where
  "site_routes =
     \<lparr>routes_middleware = Some [''middleware/auth.js''],
      routes_routes =
        [(''Home'', \<lparr>route_path = JStr ''/'', route_method = JUndefined,
                     route_page = PageModule ''pages/home.js''\<rparr>),
         (''About'', \<lparr>route_path = JStr ''/about'', route_method = JStr ''GET'',
                      route_page = PageFormats [(''default'', ''pages/about.js''),
                                                (''mobile'', ''pages/about-mobile.js'')]\<rparr>)]\<rparr>"

definition colliding_routes :: routes_table where
  "colliding_routes =
     \<lparr>routes_middleware = None,
      routes_routes =
        [(''a'', \<lparr>route_path = JStr ''/a'', route_method = JUndefined,
                  route_page = PageFormats [(''b'', ''x.js'')]\<rparr>),
         (''a-b'', \<lparr>route_path = JStr ''/a-b'', route_method = JUndefined,
                    route_page = PageModule ''y.js''\<rparr>)]\<rparr>"

definition proto_routes :: routes_table where
  "proto_routes =
     \<lparr>routes_middleware = None,
      routes_routes =
        [(''__proto__'', \<lparr>route_path = JStr ''/p'', route_method = JUndefined,
                          route_page = PageModule ''p.js''\<rparr>)]\<rparr>"

definition site_opts :: compile_opts where
  "site_opts =
     \<lparr>opt_routes = site_routes, opt_webpackConfig = None, opt_webpack_config = None,
      opt_workingDir = None, opt_routesDir = None, opt_outputDir = None, opt_outputUrl = None,
      opt_hot = None, opt_minify = None, opt_stats = None, opt_longTermCaching = None,
      opt_logLevel = JStr ''debug'', opt_timingLogLevel = JUndefined, opt_gaugeLogLevel = JNull\<rparr>"

text \<open>The path a file system call is made on.\<close>

fun fs_op_path :: "fs_op \<Rightarrow> string" where
  "fs_op_path (Mkdirp p) = p"
| "fs_op_path (WriteFile p c) = p"













section \<open>Manifest extraction: what each chunk leaves in the manifest\<close>

lemma css_loop_find:
  "css_loop fs n i css =
     (case find css_test (drop i fs) of None \<Rightarrow> css | Some f \<Rightarrow> obj_assign css n (JStr f))"
proof (induction fs n i css rule: css_loop.induct)
  case (1 fs n i css)
  show ?case
  proof (cases "i < length fs")
    case True
    then have d: "drop i fs = fs ! i # drop (Suc i) fs"
      by (simp add: Cons_nth_drop_Suc)
    show ?thesis
      using True 1 by (subst css_loop.simps) (simp add: d)
  next
    case False
    then show ?thesis by (subst css_loop.simps) simp
  qed
qed

lemma step_hash: "manifest_hash (manifest_step m c) = manifest_hash m"
  by (simp add: manifest_step_def Let_def)

lemma step_byId:
  "jsChunksById (manifest_step m c) = (jsChunksById m)(chunk_id c \<mapsto> files0 (chunk_files c))"
  by (simp add: manifest_step_def Let_def)

lemma step_byName:
  "jsChunksByName (manifest_step m c) =
     (if has_name c
      then obj_assign (jsChunksByName m) (the (chunk_name c)) (files0 (chunk_files c))
      else jsChunksByName m)"
  by (simp add: manifest_step_def Let_def)

lemma step_css:
  "cssChunksByName (manifest_step m c) =
     (if has_name c then
        (case find css_test (drop 1 (chunk_files c)) of
           None \<Rightarrow> cssChunksByName m
         | Some f \<Rightarrow> obj_assign (cssChunksByName m) (the (chunk_name c)) (JStr f))
      else cssChunksByName m)"
  by (simp add: manifest_step_def Let_def css_loop_find)

lemma has_name_Some: "has_name c \<Longrightarrow> chunk_name c = Some (the (chunk_name c))"
  by (cases "chunk_name c") (simp_all add: has_name_def)

lemma fold_hash: "manifest_hash (foldl manifest_step m cs) = manifest_hash m"
  by (induction cs arbitrary: m) (simp_all add: step_hash)

text \<open>Chunks with other ids, or other names, leave an entry as it was.\<close>

lemma fold_byId_other:
  "\<forall>d \<in> set cs. chunk_id d \<noteq> k \<Longrightarrow>
   jsChunksById (foldl manifest_step m cs) k = jsChunksById m k"
  by (induction cs rule: rev_induct) (simp_all add: step_byId)

lemma fold_byName_other:
  "\<forall>d \<in> set cs. chunk_name d \<noteq> Some n \<Longrightarrow>
   jsChunksByName (foldl manifest_step m cs) n = jsChunksByName m n"
proof (induction cs rule: rev_induct)
  case Nil
  then show ?case by simp
next
  case (snoc x xs)
  then have ih: "jsChunksByName (foldl manifest_step m xs) n = jsChunksByName m n"
    and x: "chunk_name x \<noteq> Some n"
    by simp_all
  have "has_name x \<Longrightarrow> the (chunk_name x) \<noteq> n"
    using x has_name_Some [of x] by auto
  with ih show ?case by (auto simp add: step_byName obj_assign_def)
qed

lemma fold_css_other:
  "\<forall>d \<in> set cs. chunk_name d = Some n \<longrightarrow> find css_test (drop 1 (chunk_files d)) = None \<Longrightarrow>
   cssChunksByName (foldl manifest_step m cs) n = cssChunksByName m n"
proof (induction cs rule: rev_induct)
  case Nil
  then show ?case by simp
next
  case (snoc x xs)
  then have ih: "cssChunksByName (foldl manifest_step m xs) n = cssChunksByName m n"
    and x: "chunk_name x = Some n \<longrightarrow> find css_test (drop 1 (chunk_files x)) = None"
    by simp_all
  show ?case
  proof (cases "find css_test (drop 1 (chunk_files x))")
    case None
    with ih show ?thesis by (simp add: step_css)
  next
    case (Some f)
    with x have "chunk_name x \<noteq> Some n" by auto
    then have "has_name x \<Longrightarrow> the (chunk_name x) \<noteq> n"
      using has_name_Some [of x] by auto
    with ih Some show ?thesis by (auto simp add: step_css obj_assign_def)
  qed
qed

text \<open>No chunk leaves an entry under \<open>__proto__\<close>.\<close>

lemma fold_byName_proto:
  "jsChunksByName (foldl manifest_step m cs) ''__proto__'' = jsChunksByName m ''__proto__''"
  by (induction cs rule: rev_induct) (simp_all add: step_byName obj_assign_def)

lemma fold_css_proto:
  "cssChunksByName (foldl manifest_step m cs) ''__proto__'' = cssChunksByName m ''__proto__''"
  by (induction cs rule: rev_induct)
     (simp_all add: step_css obj_assign_def split: option.splits)

text \<open>The entries of a chunk that no later chunk overwrites.\<close>

lemma fold_byId_at:
  assumes "\<forall>d \<in> set post. chunk_id d \<noteq> chunk_id c"
  shows "jsChunksById (foldl manifest_step m (pre @ c # post)) (chunk_id c) =
           Some (files0 (chunk_files c))"
  using fold_byId_other [OF assms, of "manifest_step (foldl manifest_step m pre) c"]
  by (simp add: step_byId)

lemma fold_byName_at:
  assumes "has_name c" and "chunk_name c \<noteq> Some ''__proto__''"
    and "\<forall>d \<in> set post. chunk_name d \<noteq> chunk_name c"
  shows "jsChunksByName (foldl manifest_step m (pre @ c # post)) (the (chunk_name c)) =
           Some (files0 (chunk_files c))"
proof -
  from assms(1) have n: "chunk_name c = Some (the (chunk_name c))" by (rule has_name_Some)
  with assms(3) have "\<forall>d \<in> set post. chunk_name d \<noteq> Some (the (chunk_name c))" by simp
  moreover from assms(2) n have "the (chunk_name c) \<noteq> ''__proto__''" by auto
  ultimately show ?thesis
    using fold_byName_other [of post "the (chunk_name c)" "manifest_step (foldl manifest_step m pre) c"]
      assms(1)
    by (simp add: step_byName obj_assign_def)
qed

lemma fold_css_last_match:
  assumes "has_name c" and "chunk_name c \<noteq> Some ''__proto__''"
    and "find css_test (drop 1 (chunk_files c)) = Some f"
    and "\<forall>d \<in> set post. chunk_name d = chunk_name c \<longrightarrow>
           find css_test (drop 1 (chunk_files d)) = None"
  shows "cssChunksByName (foldl manifest_step m (pre @ c # post)) (the (chunk_name c)) =
           Some (JStr f)"
proof -
  let ?n = "the (chunk_name c)"
  from assms(1) have n: "chunk_name c = Some ?n" by (rule has_name_Some)
  with assms(4) have
    post: "\<forall>d \<in> set post. chunk_name d = Some ?n \<longrightarrow> find css_test (drop 1 (chunk_files d)) = None"
    by simp
  from assms(2) n have np: "?n \<noteq> ''__proto__''" by auto
  have "cssChunksByName (foldl manifest_step m (pre @ c # post)) ?n =
        cssChunksByName (manifest_step (foldl manifest_step m pre) c) ?n"
    using fold_css_other [OF post, of "manifest_step (foldl manifest_step m pre) c"] by simp
  also have "\<dots> = Some (JStr f)"
    using assms(1,3) np by (simp add: step_css obj_assign_def)
  finally show ?thesis .
qed

lemma find_drop1_None:
  "find P (drop 1 fs) = None \<longleftrightarrow> (\<forall>i. 1 \<le> i \<and> i < length fs \<longrightarrow> \<not> P (fs ! i))"
proof (cases fs)
  case Nil
  then show ?thesis by simp
next
  case (Cons x xs)
  have "(\<forall>i. 1 \<le> i \<and> i < Suc (length xs) \<longrightarrow> \<not> P ((x # xs) ! i)) \<longleftrightarrow>
        (\<forall>k < length xs. \<not> P (xs ! k))"
  proof
    assume h: "\<forall>i. 1 \<le> i \<and> i < Suc (length xs) \<longrightarrow> \<not> P ((x # xs) ! i)"
    show "\<forall>k < length xs. \<not> P (xs ! k)"
    proof (intro allI impI)
      fix k assume "k < length xs"
      with h [rule_format, of "Suc k"] show "\<not> P (xs ! k)" by simp
    qed
  next
    assume h: "\<forall>k < length xs. \<not> P (xs ! k)"
    show "\<forall>i. 1 \<le> i \<and> i < Suc (length xs) \<longrightarrow> \<not> P ((x # xs) ! i)"
    proof (intro allI impI)
      fix i assume "1 \<le> i \<and> i < Suc (length xs)"
      then obtain k where "i = Suc k" and "k < length xs" by (cases i) auto
      with h show "\<not> P ((x # xs) ! i)" by simp
    qed
  qed
  moreover have "find P (drop 1 fs) = None \<longleftrightarrow> (\<forall>k < length xs. \<not> P (xs ! k))"
    unfolding Cons by (simp add: find_None_iff) (metis in_set_conv_nth)
  ultimately show ?thesis unfolding Cons by simp
qed

lemma find_drop1_Some:
  assumes "find P (drop 1 fs) = Some f"
  shows "\<exists>i. 1 \<le> i \<and> i < length fs \<and> P (fs ! i) \<and> f = fs ! i \<and>
             (\<forall>j. 1 \<le> j \<and> j < i \<longrightarrow> \<not> P (fs ! j))"
proof (cases fs)
  case Nil
  with assms show ?thesis by simp
next
  case (Cons x xs)
  with assms have "find P xs = Some f" by simp
  then obtain k where k: "k < length xs" "P (xs ! k)" "f = xs ! k" "\<forall>j < k. \<not> P (xs ! j)"
    by (auto simp: find_Some_iff)
  have "\<forall>j. 1 \<le> j \<and> j < Suc k \<longrightarrow> \<not> P ((x # xs) ! j)"
  proof (intro allI impI)
    fix j assume "1 \<le> j \<and> j < Suc k"
    then obtain l where "j = Suc l" and "l < k" by (cases j) auto
    with k(4) show "\<not> P ((x # xs) ! j)" by simp
  qed
  with k have "1 \<le> Suc k \<and> Suc k < length (x # xs) \<and> P ((x # xs) ! Suc k) \<and> f = (x # xs) ! Suc k \<and>
      (\<forall>j. 1 \<le> j \<and> j < Suc k \<longrightarrow> \<not> P ((x # xs) ! j))"
    by simp
  then show ?thesis unfolding Cons by blast
qed

lemma no_css_find: "no_css c \<longleftrightarrow> find css_test (drop 1 (chunk_files c)) = None"
  unfolding no_css_def find_drop1_None by auto

text \<open>In JSON text a property whose value is \<open>undefined\<close> does not appear.\<close>

lemma json_undefined_property:
  "JSON_stringify (JObj [(''3'', JUndefined)]) = Some ''{}'' \<and>
   JSON_stringify (JObj [(''a'', JUndefined), (''b'', JStr ''b.js'')]) =
     Some (''{'' @ [CHR 0x22] @ ''b'' @ [CHR 0x22] @ '':'' @ [CHR 0x22] @ ''b.js'' @ [CHR 0x22] @ ''}'')"
  by (simp add: quote_json_string_def json_escape_char_def)

text \<open>Numbers are written as the doubles they are.\<close>

lemma json_number_examples:
  "JSON_stringify (JArr [JNum 42, JNum (- 7), JNum (2 ^ 53 + 1), JNum (10 ^ 21)]) =
     Some ''[42,-7,9007199254740992,1e+21]''"
  by code_simp

text \<open>
  Claim C1 says that every chunk leaves \<open>jsChunksById[id] = files[0]\<close> and every named
  chunk \<open>jsChunksByName[name] = files[0]\<close>. A later chunk with the same id or the same
  name overwrites the entry, and a chunk named \<open>__proto__\<close> leaves no entry under its
  name: of the chunks \<open>{id:1, name:"a", files:["a1.js"]}\<close> and
  \<open>{id:1, name:"a", files:["a2.js"]}\<close> the manifest holds \<open>"a2.js"\<close> under \<open>1\<close> and under
  \<open>a\<close>, and for the chunk \<open>{id:3, name:"__proto__", files:["p.js"]}\<close> \<open>jsChunksByName\<close>
  is empty.
\<close>

theorem statsToManifest_overwritten_entry_counterexample:
  "jsChunksById
     (statsToManifest
        \<lparr>stats_chunks =
           [\<lparr>chunk_id = 1, chunk_name = Some ''a'', chunk_files = [''a1.js'']\<rparr>,
            \<lparr>chunk_id = 1, chunk_name = Some ''a'', chunk_files = [''a2.js'']\<rparr>],
         stats_hash = ''h''\<rparr>) 1 = Some (JStr ''a2.js'') \<and>
   jsChunksByName
     (statsToManifest
        \<lparr>stats_chunks =
           [\<lparr>chunk_id = 1, chunk_name = Some ''a'', chunk_files = [''a1.js'']\<rparr>,
            \<lparr>chunk_id = 1, chunk_name = Some ''a'', chunk_files = [''a2.js'']\<rparr>],
         stats_hash = ''h''\<rparr>) ''a'' = Some (JStr ''a2.js'') \<and>
   jsChunksByName
     (statsToManifest
        \<lparr>stats_chunks =
           [\<lparr>chunk_id = 3, chunk_name = Some ''__proto__'', chunk_files = [''p.js'']\<rparr>],
         stats_hash = ''h''\<rparr>) = Map.empty"
  by (simp add: statsToManifest_def manifest_step_def has_name_def files0_def css_loop.simps
                obj_assign_def)

text \<open>
  Claim C1, as the code has it. The manifest carries the hash of the compilation. For
  every chunk that no later chunk shares its id with, \<open>jsChunksById[id]\<close> is \<open>files[0]\<close>
  of the chunk. For every chunk that has a name other than \<open>__proto__\<close> and that no later
  chunk shares its name with, \<open>jsChunksByName[name]\<close> is \<open>files[0]\<close> of the chunk; there
  is no entry under \<open>__proto__\<close>. For the chunks
  \<open>{id:1, name:"home", files:["home.js","home.css"]}\<close> and \<open>{id:2, files:["vendor.js"]}\<close>
  with hash \<open>"abc"\<close> the manifest is the one of the claim.
\<close>

theorem statsToManifest_records_chunk_not_overwritten:
  "manifest_hash (statsToManifest s) = stats_hash s \<and>
   (\<forall>pre c post.
      stats_chunks s = pre @ c # post \<and> (\<forall>d \<in> set post. chunk_id d \<noteq> chunk_id c) \<longrightarrow>
      jsChunksById (statsToManifest s) (chunk_id c) = Some (files0 (chunk_files c))) \<and>
   (\<forall>pre c post.
      stats_chunks s = pre @ c # post \<and> has_name c \<and> chunk_name c \<noteq> Some ''__proto__'' \<and>
      (\<forall>d \<in> set post. chunk_name d \<noteq> chunk_name c) \<longrightarrow>
      jsChunksByName (statsToManifest s) (the (chunk_name c)) = Some (files0 (chunk_files c))) \<and>
   jsChunksByName (statsToManifest s) ''__proto__'' = None \<and>
   statsToManifest
     \<lparr>stats_chunks =
        [\<lparr>chunk_id = 1, chunk_name = Some ''home'', chunk_files = [''home.js'', ''home.css'']\<rparr>,
         \<lparr>chunk_id = 2, chunk_name = None, chunk_files = [''vendor.js'']\<rparr>],
      stats_hash = ''abc''\<rparr> =
     \<lparr>jsChunksByName = [''home'' \<mapsto> JStr ''home.js''],
      jsChunksById = [1 \<mapsto> JStr ''home.js'', 2 \<mapsto> JStr ''vendor.js''],
      cssChunksByName = [''home'' \<mapsto> JStr ''home.css''],
      manifest_hash = ''abc''\<rparr>"
proof -
  have hash: "manifest_hash (statsToManifest s) = stats_hash s"
    by (simp add: statsToManifest_def fold_hash)
  have ids: "\<forall>pre c post.
      stats_chunks s = pre @ c # post \<and> (\<forall>d \<in> set post. chunk_id d \<noteq> chunk_id c) \<longrightarrow>
      jsChunksById (statsToManifest s) (chunk_id c) = Some (files0 (chunk_files c))"
  proof (intro allI impI)
    fix pre c post
    assume h: "stats_chunks s = pre @ c # post \<and> (\<forall>d \<in> set post. chunk_id d \<noteq> chunk_id c)"
    then have "\<forall>d \<in> set post. chunk_id d \<noteq> chunk_id c" by simp
    from fold_byId_at [OF this] h
    show "jsChunksById (statsToManifest s) (chunk_id c) = Some (files0 (chunk_files c))"
      by (simp add: statsToManifest_def)
  qed
  have names: "\<forall>pre c post.
      stats_chunks s = pre @ c # post \<and> has_name c \<and> chunk_name c \<noteq> Some ''__proto__'' \<and>
      (\<forall>d \<in> set post. chunk_name d \<noteq> chunk_name c) \<longrightarrow>
      jsChunksByName (statsToManifest s) (the (chunk_name c)) = Some (files0 (chunk_files c))"
  proof (intro allI impI)
    fix pre c post
    assume h: "stats_chunks s = pre @ c # post \<and> has_name c \<and>
      chunk_name c \<noteq> Some ''__proto__'' \<and> (\<forall>d \<in> set post. chunk_name d \<noteq> chunk_name c)"
    then have n: "has_name c" and p: "chunk_name c \<noteq> Some ''__proto__''"
      and l: "\<forall>d \<in> set post. chunk_name d \<noteq> chunk_name c"
      by simp_all
    from fold_byName_at [OF n p l] h
    show "jsChunksByName (statsToManifest s) (the (chunk_name c)) = Some (files0 (chunk_files c))"
      by (simp add: statsToManifest_def)
  qed
  have proto: "jsChunksByName (statsToManifest s) ''__proto__'' = None"
    by (simp add: statsToManifest_def fold_byName_proto)
  have example: "statsToManifest
     \<lparr>stats_chunks =
        [\<lparr>chunk_id = 1, chunk_name = Some ''home'', chunk_files = [''home.js'', ''home.css'']\<rparr>,
         \<lparr>chunk_id = 2, chunk_name = None, chunk_files = [''vendor.js'']\<rparr>],
      stats_hash = ''abc''\<rparr> =
     \<lparr>jsChunksByName = [''home'' \<mapsto> JStr ''home.js''],
      jsChunksById = [1 \<mapsto> JStr ''home.js'', 2 \<mapsto> JStr ''vendor.js''],
      cssChunksByName = [''home'' \<mapsto> JStr ''home.css''],
      manifest_hash = ''abc''\<rparr>"
    by (simp add: statsToManifest_def manifest_step_def has_name_def files0_def
                  css_loop.simps css_test_def obj_assign_def)
  show ?thesis
    by (intro conjI hash ids names proto example)
qed

theorem statsToManifest_records_chunk_not_overwritten_witness:
  "jsChunksByName (statsToManifest two_chunk_stats) ''app'' = Some (JStr ''app.3fa.js'') \<and>
   jsChunksById (statsToManifest two_chunk_stats) 7 = Some (JStr ''app.3fa.js'') \<and>
   jsChunksById (statsToManifest two_chunk_stats) 9 = Some (JStr ''9.c01.js'')"
proof -
  let ?a = "\<lparr>chunk_id = 7, chunk_name = Some ''app'', chunk_files = [''app.3fa.js'', ''app.3fa.css'']\<rparr>"
  let ?b = "\<lparr>chunk_id = 9, chunk_name = None, chunk_files = [''9.c01.js'']\<rparr>"
  have a: "stats_chunks two_chunk_stats = [] @ ?a # [?b]"
    and b: "stats_chunks two_chunk_stats = [?a] @ ?b # []"
    by (simp_all add: two_chunk_stats_def)
  note t = statsToManifest_records_chunk_not_overwritten [of two_chunk_stats]
  from t have ids: "\<And>pre c post.
      stats_chunks two_chunk_stats = pre @ c # post \<and> (\<forall>d \<in> set post. chunk_id d \<noteq> chunk_id c) \<Longrightarrow>
      jsChunksById (statsToManifest two_chunk_stats) (chunk_id c) = Some (files0 (chunk_files c))"
    by blast
  from t have names: "\<And>pre c post.
      stats_chunks two_chunk_stats = pre @ c # post \<and> has_name c \<and>
      chunk_name c \<noteq> Some ''__proto__'' \<and> (\<forall>d \<in> set post. chunk_name d \<noteq> chunk_name c) \<Longrightarrow>
      jsChunksByName (statsToManifest two_chunk_stats) (the (chunk_name c)) =
        Some (files0 (chunk_files c))"
    by blast
  from names [of "[]" ?a "[?b]"] a
  have "jsChunksByName (statsToManifest two_chunk_stats) ''app'' = Some (JStr ''app.3fa.js'')"
    by (simp add: has_name_def files0_def)
  moreover from ids [of "[]" ?a "[?b]"] a
  have "jsChunksById (statsToManifest two_chunk_stats) 7 = Some (JStr ''app.3fa.js'')"
    by (simp add: files0_def)
  moreover from ids [of "[?a]" ?b "[]"] b
  have "jsChunksById (statsToManifest two_chunk_stats) 9 = Some (JStr ''9.c01.js'')"
    by (simp add: files0_def)
  ultimately show ?thesis by blast
qed

text \<open>
  Claim C2 says that for every named chunk \<open>cssChunksByName[name]\<close> is the first file of
  the chunk, from index 1 on, that matches the CSS pattern, and that there is no entry
  when no file matches. The entry is shared by the chunks of one name, and a chunk named
  \<open>__proto__\<close> leaves none: after \<open>{name:"a", files:["a1.js","a1.css"]}\<close> and
  \<open>{name:"a", files:["a2.js"]}\<close> the entry under \<open>a\<close> is \<open>"a1.css"\<close> though no file of the
  second chunk matches; after \<open>{name:"a", files:["a1.js","a1.css"]}\<close> and
  \<open>{name:"a", files:["a2.js","a2.css"]}\<close> it is \<open>"a2.css"\<close>, not the first match of the
  first chunk; and for \<open>{name:"__proto__", files:["p.js","p.css"]}\<close> \<open>cssChunksByName\<close> is
  empty.
\<close>

theorem cssChunksByName_shared_name_counterexample:
  "cssChunksByName
     (statsToManifest
        \<lparr>stats_chunks =
           [\<lparr>chunk_id = 1, chunk_name = Some ''a'', chunk_files = [''a1.js'', ''a1.css'']\<rparr>,
            \<lparr>chunk_id = 2, chunk_name = Some ''a'', chunk_files = [''a2.js'']\<rparr>],
         stats_hash = ''h''\<rparr>) ''a'' = Some (JStr ''a1.css'') \<and>
   cssChunksByName
     (statsToManifest
        \<lparr>stats_chunks =
           [\<lparr>chunk_id = 1, chunk_name = Some ''a'', chunk_files = [''a1.js'', ''a1.css'']\<rparr>,
            \<lparr>chunk_id = 2, chunk_name = Some ''a'', chunk_files = [''a2.js'', ''a2.css'']\<rparr>],
         stats_hash = ''h''\<rparr>) ''a'' = Some (JStr ''a2.css'') \<and>
   cssChunksByName
     (statsToManifest
        \<lparr>stats_chunks =
           [\<lparr>chunk_id = 3, chunk_name = Some ''__proto__'', chunk_files = [''p.js'', ''p.css'']\<rparr>],
         stats_hash = ''h''\<rparr>) = Map.empty"
  by (simp add: statsToManifest_def manifest_step_def has_name_def files0_def css_loop.simps
                css_test_def obj_assign_def)

text \<open>
  Claim C2, as the code has it. Take a chunk that has a name other than \<open>__proto__\<close>. If
  its file at an index \<open>i\<close> from 1 on matches the CSS pattern, none of its files from
  index 1 up to \<open>i\<close> does, and no later chunk of the same name has a matching file from
  index 1 on, then \<open>cssChunksByName[name]\<close> is that file: what stands before it is
  skipped, what stands after it does not overwrite it. If no chunk of a name has a
  matching file from index 1 on, there is no entry for that name; there is no entry
  under \<open>__proto__\<close>. The chunk \<open>{name:"x", files:["x.js","x.abc123.hot-update.js","x.css"]}\<close>
  gives \<open>"x.css"\<close>.
\<close>

theorem cssChunksByName_first_css_of_last_chunk:
  "(\<forall>pre c post i.
      stats_chunks s = pre @ c # post \<and> has_name c \<and> chunk_name c \<noteq> Some ''__proto__'' \<and>
      1 \<le> i \<and> i < length (chunk_files c) \<and> css_test (chunk_files c ! i) \<and>
      (\<forall>j. 1 \<le> j \<and> j < i \<longrightarrow> \<not> css_test (chunk_files c ! j)) \<and>
      (\<forall>d \<in> set post. chunk_name d = chunk_name c \<longrightarrow> no_css d) \<longrightarrow>
      cssChunksByName (statsToManifest s) (the (chunk_name c)) = Some (JStr (chunk_files c ! i))) \<and>
   (\<forall>n. (\<forall>d \<in> set (stats_chunks s). chunk_name d = Some n \<longrightarrow> no_css d) \<longrightarrow>
      cssChunksByName (statsToManifest s) n = None) \<and>
   cssChunksByName (statsToManifest s) ''__proto__'' = None \<and>
   (\<forall>k h. cssChunksByName
      (statsToManifest
         \<lparr>stats_chunks =
            [\<lparr>chunk_id = k, chunk_name = Some ''x'',
              chunk_files = [''x.js'', ''x.abc123.hot-update.js'', ''x.css'']\<rparr>],
          stats_hash = h\<rparr>) ''x'' = Some (JStr ''x.css''))"
proof -
  have first: "\<forall>pre c post i.
      stats_chunks s = pre @ c # post \<and> has_name c \<and> chunk_name c \<noteq> Some ''__proto__'' \<and>
      1 \<le> i \<and> i < length (chunk_files c) \<and> css_test (chunk_files c ! i) \<and>
      (\<forall>j. 1 \<le> j \<and> j < i \<longrightarrow> \<not> css_test (chunk_files c ! j)) \<and>
      (\<forall>d \<in> set post. chunk_name d = chunk_name c \<longrightarrow> no_css d) \<longrightarrow>
      cssChunksByName (statsToManifest s) (the (chunk_name c)) = Some (JStr (chunk_files c ! i))"
  proof (intro allI impI)
    fix pre c post i
    assume h: "stats_chunks s = pre @ c # post \<and> has_name c \<and>
      chunk_name c \<noteq> Some ''__proto__'' \<and>
      1 \<le> i \<and> i < length (chunk_files c) \<and> css_test (chunk_files c ! i) \<and>
      (\<forall>j. 1 \<le> j \<and> j < i \<longrightarrow> \<not> css_test (chunk_files c ! j)) \<and>
      (\<forall>d \<in> set post. chunk_name d = chunk_name c \<longrightarrow> no_css d)"
    then have cs: "stats_chunks s = pre @ c # post" and n: "has_name c"
      and p: "chunk_name c \<noteq> Some ''__proto__''"
      and i: "1 \<le> i" "i < length (chunk_files c)" "css_test (chunk_files c ! i)"
      and before: "\<forall>j. 1 \<le> j \<and> j < i \<longrightarrow> \<not> css_test (chunk_files c ! j)"
      and later: "\<forall>d \<in> set post. chunk_name d = chunk_name c \<longrightarrow> no_css d"
      by simp_all
    from i have "find css_test (drop 1 (chunk_files c)) \<noteq> None"
      using find_drop1_None [of css_test "chunk_files c"] by auto
    then obtain f where f: "find css_test (drop 1 (chunk_files c)) = Some f" by auto
    from find_drop1_Some [OF f] obtain k where
      k: "1 \<le> k" "k < length (chunk_files c)" "css_test (chunk_files c ! k)" "f = chunk_files c ! k"
        "\<forall>j. 1 \<le> j \<and> j < k \<longrightarrow> \<not> css_test (chunk_files c ! j)"
      by blast
    have "k = i"
    proof (rule ccontr)
      assume "k \<noteq> i"
      then consider "k < i" | "i < k" by (meson nat_neq_iff)
      then show False
      proof cases
        case 1
        with before k(1,3) show False by simp
      next
        case 2
        with k(5) i(1,3) show False by simp
      qed
    qed
    with k(4) have fi: "f = chunk_files c ! i" by simp
    from later have l: "\<forall>d \<in> set post. chunk_name d = chunk_name c \<longrightarrow>
        find css_test (drop 1 (chunk_files d)) = None"
      by (simp add: no_css_find)
    show "cssChunksByName (statsToManifest s) (the (chunk_name c)) = Some (JStr (chunk_files c ! i))"
      using fold_css_last_match [OF n p f l] cs fi by (simp add: statsToManifest_def)
  qed
  have none: "\<forall>n. (\<forall>d \<in> set (stats_chunks s). chunk_name d = Some n \<longrightarrow> no_css d) \<longrightarrow>
      cssChunksByName (statsToManifest s) n = None"
  proof (intro allI impI)
    fix n
    assume "\<forall>d \<in> set (stats_chunks s). chunk_name d = Some n \<longrightarrow> no_css d"
    then have "\<forall>d \<in> set (stats_chunks s). chunk_name d = Some n \<longrightarrow>
        find css_test (drop 1 (chunk_files d)) = None"
      by (simp add: no_css_find)
    from fold_css_other [OF this] show "cssChunksByName (statsToManifest s) n = None"
      by (simp add: statsToManifest_def)
  qed
  have proto: "cssChunksByName (statsToManifest s) ''__proto__'' = None"
    by (simp add: statsToManifest_def fold_css_proto)
  have example: "\<forall>k h. cssChunksByName
      (statsToManifest
         \<lparr>stats_chunks =
            [\<lparr>chunk_id = k, chunk_name = Some ''x'',
              chunk_files = [''x.js'', ''x.abc123.hot-update.js'', ''x.css'']\<rparr>],
          stats_hash = h\<rparr>) ''x'' = Some (JStr ''x.css'')"
    by (simp add: statsToManifest_def manifest_step_def has_name_def files0_def
                  css_loop.simps css_test_def obj_assign_def)
  show ?thesis
    by (intro conjI first none proto example)
qed

theorem cssChunksByName_first_css_of_last_chunk_witness:
  "cssChunksByName (statsToManifest two_chunk_stats) ''app'' = Some (JStr ''app.3fa.css'') \<and>
   cssChunksByName (statsToManifest empty_chunk_stats) ''lazy'' = None"
proof -
  let ?a = "\<lparr>chunk_id = 7, chunk_name = Some ''app'', chunk_files = [''app.3fa.js'', ''app.3fa.css'']\<rparr>"
  let ?b = "\<lparr>chunk_id = 9, chunk_name = None, chunk_files = [''9.c01.js'']\<rparr>"
  have a: "stats_chunks two_chunk_stats = [] @ ?a # [?b]"
    by (simp add: two_chunk_stats_def)
  note t = cssChunksByName_first_css_of_last_chunk [of two_chunk_stats]
  from t have first: "\<And>pre c post i.
      stats_chunks two_chunk_stats = pre @ c # post \<and> has_name c \<and>
      chunk_name c \<noteq> Some ''__proto__'' \<and>
      1 \<le> i \<and> i < length (chunk_files c) \<and> css_test (chunk_files c ! i) \<and>
      (\<forall>j. 1 \<le> j \<and> j < i \<longrightarrow> \<not> css_test (chunk_files c ! j)) \<and>
      (\<forall>d \<in> set post. chunk_name d = chunk_name c \<longrightarrow> no_css d) \<Longrightarrow>
      cssChunksByName (statsToManifest two_chunk_stats) (the (chunk_name c)) =
        Some (JStr (chunk_files c ! i))"
    by blast
  from cssChunksByName_first_css_of_last_chunk [of empty_chunk_stats]
  have none: "\<And>n. (\<forall>d \<in> set (stats_chunks empty_chunk_stats). chunk_name d = Some n \<longrightarrow> no_css d) \<Longrightarrow>
      cssChunksByName (statsToManifest empty_chunk_stats) n = None"
    by blast
  from first [of "[]" ?a "[?b]" 1] a
  have "cssChunksByName (statsToManifest two_chunk_stats) ''app'' = Some (JStr ''app.3fa.css'')"
    by (simp add: has_name_def css_test_def)
  moreover from none [of "''lazy''"]
  have "cssChunksByName (statsToManifest empty_chunk_stats) ''lazy'' = None"
    by (simp add: empty_chunk_stats_def no_css_def)
  ultimately show ?thesis by blast
qed

text \<open>
  Claim C5 says that a chunk without files leaves no entry. The extraction has no such
  guard: for the chunk \<open>{id:3, name:"a", files:[]}\<close> it records \<open>undefined\<close>, the value of
  \<open>files[0]\<close>, under the id and under the name.
\<close>

theorem empty_files_counterexample:
  "jsChunksById
     (statsToManifest
        \<lparr>stats_chunks = [\<lparr>chunk_id = 3, chunk_name = Some ''a'', chunk_files = []\<rparr>],
         stats_hash = ''h''\<rparr>) 3 = Some JUndefined \<and>
   jsChunksByName
     (statsToManifest
        \<lparr>stats_chunks = [\<lparr>chunk_id = 3, chunk_name = Some ''a'', chunk_files = []\<rparr>],
         stats_hash = ''h''\<rparr>) ''a'' = Some JUndefined"
  by (simp add: statsToManifest_def manifest_step_def has_name_def files0_def css_loop.simps
                obj_assign_def)

text \<open>
  Claim C5, as the code has it. Take a chunk whose list of files is empty. If no later
  chunk shares its id, \<open>jsChunksById[id]\<close> is \<open>undefined\<close> in the manifest. If it has a
  name other than \<open>__proto__\<close> and no later chunk shares the name, \<open>jsChunksByName[name]\<close>
  is \<open>undefined\<close> in the manifest. The iteration for the chunk leaves \<open>cssChunksByName\<close> as
  it was.
\<close>

theorem empty_files_recorded_as_undefined:
  "(\<forall>pre c post.
      stats_chunks s = pre @ c # post \<and> chunk_files c = [] \<and>
      (\<forall>d \<in> set post. chunk_id d \<noteq> chunk_id c) \<longrightarrow>
      jsChunksById (statsToManifest s) (chunk_id c) = Some JUndefined) \<and>
   (\<forall>pre c post.
      stats_chunks s = pre @ c # post \<and> chunk_files c = [] \<and> has_name c \<and>
      chunk_name c \<noteq> Some ''__proto__'' \<and> (\<forall>d \<in> set post. chunk_name d \<noteq> chunk_name c) \<longrightarrow>
      jsChunksByName (statsToManifest s) (the (chunk_name c)) = Some JUndefined) \<and>
   (\<forall>m c. chunk_files c = [] \<longrightarrow> cssChunksByName (manifest_step m c) = cssChunksByName m)"
proof -
  have ids: "\<forall>pre c post.
      stats_chunks s = pre @ c # post \<and> chunk_files c = [] \<and>
      (\<forall>d \<in> set post. chunk_id d \<noteq> chunk_id c) \<longrightarrow>
      jsChunksById (statsToManifest s) (chunk_id c) = Some JUndefined"
  proof (intro allI impI)
    fix pre c post
    assume h: "stats_chunks s = pre @ c # post \<and> chunk_files c = [] \<and>
      (\<forall>d \<in> set post. chunk_id d \<noteq> chunk_id c)"
    then have "\<forall>d \<in> set post. chunk_id d \<noteq> chunk_id c" by simp
    from fold_byId_at [OF this] h
    show "jsChunksById (statsToManifest s) (chunk_id c) = Some JUndefined"
      by (simp add: statsToManifest_def files0_def)
  qed
  have names: "\<forall>pre c post.
      stats_chunks s = pre @ c # post \<and> chunk_files c = [] \<and> has_name c \<and>
      chunk_name c \<noteq> Some ''__proto__'' \<and> (\<forall>d \<in> set post. chunk_name d \<noteq> chunk_name c) \<longrightarrow>
      jsChunksByName (statsToManifest s) (the (chunk_name c)) = Some JUndefined"
  proof (intro allI impI)
    fix pre c post
    assume h: "stats_chunks s = pre @ c # post \<and> chunk_files c = [] \<and> has_name c \<and>
      chunk_name c \<noteq> Some ''__proto__'' \<and> (\<forall>d \<in> set post. chunk_name d \<noteq> chunk_name c)"
    then have n: "has_name c" and p: "chunk_name c \<noteq> Some ''__proto__''"
      and l: "\<forall>d \<in> set post. chunk_name d \<noteq> chunk_name c"
      by simp_all
    from fold_byName_at [OF n p l] h
    show "jsChunksByName (statsToManifest s) (the (chunk_name c)) = Some JUndefined"
      by (simp add: statsToManifest_def files0_def)
  qed
  have css: "\<forall>m c. chunk_files c = [] \<longrightarrow> cssChunksByName (manifest_step m c) = cssChunksByName m"
    by (simp add: step_css)
  show ?thesis
    by (intro conjI ids names css)
qed

theorem empty_files_recorded_as_undefined_witness:
  "jsChunksById (statsToManifest empty_chunk_stats) 4 = Some JUndefined \<and>
   jsChunksByName (statsToManifest empty_chunk_stats) ''lazy'' = Some JUndefined \<and>
   cssChunksByName
     (manifest_step
        \<lparr>jsChunksByName = Map.empty, jsChunksById = Map.empty,
         cssChunksByName = [''main'' \<mapsto> JStr ''main.css''], manifest_hash = ''77aa''\<rparr>
        \<lparr>chunk_id = 4, chunk_name = Some ''lazy'', chunk_files = []\<rparr>) =
     [''main'' \<mapsto> JStr ''main.css'']"
proof -
  let ?m = "\<lparr>jsChunksByName = Map.empty, jsChunksById = Map.empty,
         cssChunksByName = [''main'' \<mapsto> JStr ''main.css''], manifest_hash = ''77aa''\<rparr>"
  let ?a = "\<lparr>chunk_id = 0, chunk_name = Some ''main'', chunk_files = [''main.js'', ''main.css'']\<rparr>"
  let ?b = "\<lparr>chunk_id = 4, chunk_name = Some ''lazy'', chunk_files = []\<rparr>"
  have b: "stats_chunks empty_chunk_stats = [?a] @ ?b # []"
    by (simp add: empty_chunk_stats_def)
  note t = empty_files_recorded_as_undefined [of empty_chunk_stats]
  from t have ids: "\<And>pre c post.
      stats_chunks empty_chunk_stats = pre @ c # post \<and> chunk_files c = [] \<and>
      (\<forall>d \<in> set post. chunk_id d \<noteq> chunk_id c) \<Longrightarrow>
      jsChunksById (statsToManifest empty_chunk_stats) (chunk_id c) = Some JUndefined"
    by blast
  from t have names: "\<And>pre c post.
      stats_chunks empty_chunk_stats = pre @ c # post \<and> chunk_files c = [] \<and> has_name c \<and>
      chunk_name c \<noteq> Some ''__proto__'' \<and> (\<forall>d \<in> set post. chunk_name d \<noteq> chunk_name c) \<Longrightarrow>
      jsChunksByName (statsToManifest empty_chunk_stats) (the (chunk_name c)) = Some JUndefined"
    by blast
  from t have css: "\<And>m c. chunk_files c = [] \<Longrightarrow>
      cssChunksByName (manifest_step m c) = cssChunksByName m"
    by blast
  from ids [of "[?a]" ?b "[]"] b
  have "jsChunksById (statsToManifest empty_chunk_stats) 4 = Some JUndefined" by simp
  moreover from names [of "[?a]" ?b "[]"] b
  have "jsChunksByName (statsToManifest empty_chunk_stats) ''lazy'' = Some JUndefined"
    by (simp add: has_name_def)
  moreover from css [of ?b ?m]
  have "cssChunksByName (manifest_step ?m ?b) = [''main'' \<mapsto> JStr ''main.css'']" by simp
  ultimately show ?thesis by blast
qed

section \<open>Entrypoints: the set the loops build\<close>

lemma formats_Inr:
  "entrypoints_formats env rda base boot rn fs eps = Inr eps' \<Longrightarrow>
   eps' = pairs_map env rda base boot (map (\<lambda>fm. (rn, fst fm, snd fm)) fs) eps \<and>
   (\<forall>fm \<in> set fs. \<exists>a. resolve_page env rda (snd fm) = Inr a)"
proof (induction fs arbitrary: eps)
  case Nil
  then show ?case by simp
next
  case (Cons fm fs)
  obtain f m where fm: "fm = (f, m)" by (cases fm)
  from Cons.prems obtain a where
    a: "require_resolve env (path_resolve env [rda, m]) = Inr a" and
    rest: "entrypoints_formats env rda base boot rn fs
             (obj_assign eps (entry_name rn f) (base @ [boot, a])) = Inr eps'"
    by (auto simp: fm split: sum.splits)
  have step: "(case pair_entry env rda base boot (rn, f, m) of
                 None \<Rightarrow> eps
               | Some modules \<Rightarrow> obj_assign eps (pair_name (rn, f, m)) modules) =
      obj_assign eps (entry_name rn f) (base @ [boot, a])"
    using a by (simp add: pair_name_def pair_entry_def resolve_page_def)
  have "eps' = pairs_map env rda base boot (map (\<lambda>fm. (rn, fst fm, snd fm)) (fm # fs)) eps"
    using Cons.IH [OF rest] by (simp only: fm list.map fst_conv snd_conv pairs_map.simps step)
  moreover have "\<forall>fm \<in> set (fm # fs). \<exists>a. resolve_page env rda (snd fm) = Inr a"
    using Cons.IH [OF rest] a by (simp add: fm resolve_page_def)
  ultimately show ?case by blast
qed

lemma pairs_map_append:
  "pairs_map env rda base boot (qs @ rs) eps =
   pairs_map env rda base boot rs (pairs_map env rda base boot qs eps)"
  by (induction qs arbitrary: eps) simp_all

lemma routes_Inr:
  "entrypoints_routes env rda base boot rs eps = Inr eps' \<Longrightarrow>
   eps' = pairs_map env rda base boot (route_pairs rs) eps \<and>
   (\<forall>q \<in> set (route_pairs rs). \<exists>a. resolve_page env rda (snd (snd q)) = Inr a)"
proof (induction rs arbitrary: eps)
  case Nil
  then show ?case by (simp add: route_pairs_def)
next
  case (Cons nr rs)
  obtain rn r where nr: "nr = (rn, r)" by (cases nr)
  from Cons.prems obtain eps1 where
    one: "entrypoints_formats env rda base boot rn (normalizeRoutesPage (route_page r)) eps = Inr eps1" and
    rest: "entrypoints_routes env rda base boot rs eps1 = Inr eps'"
    by (auto simp: nr split: sum.splits)
  let ?here = "map (\<lambda>fm. (rn, fst fm, snd fm)) (normalizeRoutesPage (route_page r))"
  have sp: "route_pairs (nr # rs) = ?here @ route_pairs rs"
    by (simp add: route_pairs_def nr)
  from formats_Inr [OF one] have
    e1: "eps1 = pairs_map env rda base boot ?here eps" and
    r1: "\<forall>q \<in> set ?here. \<exists>a. resolve_page env rda (snd (snd q)) = Inr a"
    by simp_all
  from Cons.IH [OF rest] have
    e2: "eps' = pairs_map env rda base boot (route_pairs rs) eps1" and
    r2: "\<forall>q \<in> set (route_pairs rs). \<exists>a. resolve_page env rda (snd (snd q)) = Inr a"
    by simp_all
  have "eps' = pairs_map env rda base boot (route_pairs (nr # rs)) eps"
    by (simp only: sp pairs_map_append e2 e1)
  moreover have "\<forall>q \<in> set (route_pairs (nr # rs)). \<exists>a. resolve_page env rda (snd (snd q)) = Inr a"
    proof
    fix q
    assume "q \<in> set (route_pairs (nr # rs))"
    then have "q \<in> set ?here \<or> q \<in> set (route_pairs rs)" by (simp add: sp)
    with r1 r2 show "\<exists>a. resolve_page env rda (snd (snd q)) = Inr a" by blast
  qed
  ultimately show ?case by blast
qed

lemma pairs_map_notin:
  "k \<notin> pair_name ` set qs \<Longrightarrow> pairs_map env rda base boot qs eps k = eps k"
  by (induction qs arbitrary: eps) (auto simp: obj_assign_def split: option.splits)

lemma pairs_map_proto:
  "pairs_map env rda base boot qs eps ''__proto__'' = eps ''__proto__''"
  by (induction qs arbitrary: eps) (auto simp: obj_assign_def split: option.splits)

lemma pairs_map_distinct:
  "distinct (map pair_name qs) \<Longrightarrow> q \<in> set qs \<Longrightarrow> pair_name q \<noteq> ''__proto__'' \<Longrightarrow>
   pair_entry env rda base boot q = Some modules \<Longrightarrow>
   pairs_map env rda base boot qs eps (pair_name q) = Some modules"
proof (induction qs arbitrary: eps)
  case Nil
  then show ?case by simp
next
  case (Cons x xs)
  show ?case
  proof (cases "q = x")
    case True
    with Cons.prems show ?thesis by (simp add: pairs_map_notin obj_assign_def)
  next
    case False
    with Cons show ?thesis by simp
  qed
qed

lemma pairs_map_dom:
  "(\<forall>q \<in> set qs. \<exists>a. resolve_page env rda (snd (snd q)) = Inr a) \<Longrightarrow>
   dom (pairs_map env rda base boot qs eps) = dom eps \<union> (pair_name ` set qs - {''__proto__''})"
proof (induction qs arbitrary: eps)
  case Nil
  then show ?case by simp
next
  case (Cons x xs)
  then obtain a where "resolve_page env rda (snd (snd x)) = Inr a" by auto
  then have "pair_entry env rda base boot x = Some (base @ [boot, a])"
    by (simp add: pair_entry_def)
  with Cons show ?case by (auto simp: obj_assign_def)
qed

lemma pairs_map_values:
  "(\<forall>k v. eps k = Some v \<longrightarrow> (\<exists>a. v = base @ [boot, a])) \<Longrightarrow>
   pairs_map env rda base boot qs eps k = Some v \<Longrightarrow> \<exists>a. v = base @ [boot, a]"
proof (induction qs arbitrary: eps)
  case Nil
  then show ?case by simp
next
  case (Cons x xs)
  show ?case
  proof (rule Cons.IH [OF _ Cons.prems(2) [simplified]])
    show "\<forall>k v. (case pair_entry env rda base boot x of
                   None \<Rightarrow> eps
                 | Some modules \<Rightarrow> obj_assign eps (pair_name x) modules) k = Some v \<longrightarrow>
         (\<exists>a. v = base @ [boot, a])"
      using Cons.prems(1)
      by (auto simp: pair_entry_def obj_assign_def split: sum.splits option.splits if_splits)
  qed
qed

lemma base_cases:
  "entrypointBase env hot outputUrl = Inr base \<Longrightarrow>
   (if hot then \<exists>client only. require_resolve env ''webpack-dev-server/client'' = Inr client \<and>
        require_resolve env ''webpack/hot/only-dev-server'' = Inr only \<and>
        base = [client @ ''?'' @ webpackDevServerClientUrl outputUrl, only]
    else base = [])"
  by (auto simp: entrypointBase_def split: sum.splits if_splits)





text \<open>
  Entry names are pairwise distinct when the route names are distinct and free of
  hyphens and the formats of each route are distinct: the part of an entry name before
  its first hyphen is then the route name.
\<close>

lemma entry_name_route:
  "CHR ''-'' \<notin> set routeName \<Longrightarrow>
   takeWhile (\<lambda>c. c \<noteq> CHR ''-'') (entry_name routeName format) = routeName"
  by (simp add: entry_name_def takeWhile_append)

lemma entry_name_format:
  "entry_name routeName f = entry_name routeName g \<Longrightarrow> f = g"
  by (auto simp: entry_name_def split: if_splits)

lemma route_pairs_names:
  "fst ` set (route_pairs rs) \<subseteq> fst ` set rs"
  by (induction rs) (auto simp: route_pairs_def)

lemma hyphen_free_names_distinct:
  assumes "distinct (map fst rs)"
    and "\<forall>nr \<in> set rs. CHR ''-'' \<notin> set (fst nr) \<and>
           distinct (map fst (normalizeRoutesPage (route_page (snd nr))))"
  shows "distinct (map pair_name (route_pairs rs))"
  using assms
proof (induction rs)
  case Nil
  then show ?case by (simp add: route_pairs_def)
next
  case (Cons nr rs)
  obtain rn r where nr: "nr = (rn, r)" by (cases nr)
  let ?fs = "normalizeRoutesPage (route_page r)"
  have sp: "map pair_name (route_pairs (nr # rs)) =
      map (\<lambda>fm. entry_name rn (fst fm)) ?fs @ map pair_name (route_pairs rs)"
    by (simp add: route_pairs_def nr pair_name_def comp_def)
  from Cons.prems have rn: "CHR ''-'' \<notin> set rn" and fs: "distinct (map fst ?fs)"
    and new: "rn \<notin> fst ` set rs"
    by (auto simp: nr)
  have here: "distinct (map (\<lambda>fm. entry_name rn (fst fm)) ?fs)"
  proof -
    have "map (\<lambda>fm. entry_name rn (fst fm)) ?fs = map (entry_name rn) (map fst ?fs)"
      by simp
    moreover have "inj_on (entry_name rn) (set (map fst ?fs))"
      by (rule inj_onI) (rule entry_name_format)
    ultimately show ?thesis using fs by (simp only: distinct_map)
  qed
  have rest: "distinct (map pair_name (route_pairs rs))"
    using Cons by simp
  have apart: "set (map (\<lambda>fm. entry_name rn (fst fm)) ?fs) \<inter> set (map pair_name (route_pairs rs)) = {}"
  proof (rule ccontr)
    assume "set (map (\<lambda>fm. entry_name rn (fst fm)) ?fs) \<inter> set (map pair_name (route_pairs rs)) \<noteq> {}"
    then obtain fm q where "fm \<in> set ?fs" and q: "q \<in> set (route_pairs rs)"
      and eq: "entry_name rn (fst fm) = pair_name q"
      by auto
    from q route_pairs_names [of rs] have q1: "fst q \<in> fst ` set rs" by auto
    with Cons.prems(2) have "CHR ''-'' \<notin> set (fst q)" by auto
    then have "takeWhile (\<lambda>c. c \<noteq> CHR ''-'') (pair_name q) = fst q"
      by (simp add: pair_name_def entry_name_route)
    moreover from rn have "takeWhile (\<lambda>c. c \<noteq> CHR ''-'') (entry_name rn (fst fm)) = rn"
      by (rule entry_name_route)
    ultimately have "rn = fst q" using eq by simp
    with q1 new show False by simp
  qed
  from here rest apart show ?case by (simp only: sp distinct_append)
qed



lemma entry_name_cases:
  "entry_name routeName format =
     (if format = ''default'' then routeName else routeName @ ''-'' @ format)"
  by (simp add: entry_name_def)

lemma entrypoints_app_site:
  "entrypoints app_env True ''/static/'' ''/app'' ''/app/__clientTemp/entry.js'' site_routes =
     Inr [''Home'' \<mapsto>
            [''/app/node_modules/webpack-dev-server/client?/static/'',
             ''/app/node_modules/webpack/hot/only-dev-server'',
             ''/app/__clientTemp/entry.js'', ''/app/pages/home.js''],
          ''About'' \<mapsto>
            [''/app/node_modules/webpack-dev-server/client?/static/'',
             ''/app/node_modules/webpack/hot/only-dev-server'',
             ''/app/__clientTemp/entry.js'', ''/app/pages/about.js''],
          ''About-mobile'' \<mapsto>
            [''/app/node_modules/webpack-dev-server/client?/static/'',
             ''/app/node_modules/webpack/hot/only-dev-server'',
             ''/app/__clientTemp/entry.js'', ''/app/pages/about-mobile.js'']]"
  by (simp add: entrypoints_def entrypointBase_def webpackDevServerClientUrl_def
        protocol_relative_def app_env_def site_routes_def normalizeRoutesPage_def
        entry_name_def posix_resolve_def obj_assign_def)

text \<open>
  Claim C3 says that every route table gets one entry per (route, format) pair. The
  names of two routes can compose to the same entry name: the format \<open>b\<close> of the route
  \<open>a\<close> and the default format of the route \<open>a-b\<close> are both named \<open>a-b\<close>, and the set
  keeps the one written last. A pair whose name is \<open>__proto__\<close> gets no entry: the table
  with the one route \<open>__proto__\<close> gives the empty set.
\<close>

theorem entrypoints_collision_counterexample:
  "entrypoints app_env False ''/static/'' ''/app'' ''/app/__clientTemp/entry.js'' colliding_routes =
     Inr [''a-b'' \<mapsto> [''/app/__clientTemp/entry.js'', ''/app/y.js'']] \<and>
   route_pairs (routes_routes colliding_routes) = [(''a'', ''b'', ''x.js''), (''a-b'', ''default'', ''y.js'')] \<and>
   entrypoints app_env False ''/static/'' ''/app'' ''/app/__clientTemp/entry.js'' proto_routes =
     Inr Map.empty \<and>
   route_pairs (routes_routes proto_routes) = [(''__proto__'', ''default'', ''p.js'')]"
  by (simp add: entrypoints_def entrypointBase_def app_env_def colliding_routes_def
        proto_routes_def normalizeRoutesPage_def entry_name_def posix_resolve_def
        route_pairs_def obj_assign_def)

text \<open>
  Claim C3, as the code has it. When the derivation succeeds for a route table whose
  (route, format) pairs compose pairwise distinct names, none of them \<open>__proto__\<close>, the
  entry point set has exactly one entry per pair, under the route name for the format
  \<open>default\<close> and under \<open>routeName-format\<close> otherwise, and the entry lists the two
  transport-client modules (in hot mode only), the bootstrap file and the located page
  module, in this order.
\<close>

theorem entrypoints_one_per_pair:
  assumes "entrypoints env hot outputUrl routesDirAbsolute bootstrapFile routes = Inr eps"
    and "distinct (map pair_name (route_pairs (routes_routes routes)))"
    and "''__proto__'' \<notin> set (map pair_name (route_pairs (routes_routes routes)))"
  shows "\<exists>base. entrypointBase env hot outputUrl = Inr base \<and>
           (if hot then
              \<exists>client only.
                require_resolve env ''webpack-dev-server/client'' = Inr client \<and>
                require_resolve env ''webpack/hot/only-dev-server'' = Inr only \<and>
                base = [client @ ''?'' @ webpackDevServerClientUrl outputUrl, only]
            else base = []) \<and>
           dom eps = pair_name ` set (route_pairs (routes_routes routes)) \<and>
           card (dom eps) = length (route_pairs (routes_routes routes)) \<and>
           (\<forall>q \<in> set (route_pairs (routes_routes routes)).
              \<exists>page. resolve_page env routesDirAbsolute (snd (snd q)) = Inr page \<and>
                  eps (if fst (snd q) = ''default'' then fst q else fst q @ ''-'' @ fst (snd q)) =
                    Some (base @ [bootstrapFile, page]))"
proof -
  from assms(1) obtain base where
    base: "entrypointBase env hot outputUrl = Inr base" and
    run: "entrypoints_routes env routesDirAbsolute base bootstrapFile (routes_routes routes) Map.empty = Inr eps"
    by (auto simp: entrypoints_def split: sum.splits)
  let ?qs = "route_pairs (routes_routes routes)"
  from routes_Inr [OF run] have
    eps: "eps = pairs_map env routesDirAbsolute base bootstrapFile ?qs Map.empty" and
    res: "\<forall>q \<in> set ?qs. \<exists>a. resolve_page env routesDirAbsolute (snd (snd q)) = Inr a"
    by simp_all
  from assms(3) have np: "pair_name ` set ?qs - {''__proto__''} = pair_name ` set ?qs"
    by auto
  have d: "dom eps = pair_name ` set ?qs"
    using pairs_map_dom [OF res, of base bootstrapFile Map.empty] eps np by simp
  have c: "card (dom eps) = length ?qs"
    using assms(2) d by (metis distinct_card length_map list.set_map)
  have e: "\<exists>page. resolve_page env routesDirAbsolute (snd (snd q)) = Inr page \<and>
        eps (if fst (snd q) = ''default'' then fst q else fst q @ ''-'' @ fst (snd q)) =
          Some (base @ [bootstrapFile, page])"
    if "q \<in> set ?qs" for q
  proof -
    from res that obtain a where a: "resolve_page env routesDirAbsolute (snd (snd q)) = Inr a" by auto
    then have pe: "pair_entry env routesDirAbsolute base bootstrapFile q = Some (base @ [bootstrapFile, a])"
      by (simp add: pair_entry_def)
    from that have "pair_name q \<in> pair_name ` set ?qs" by (rule imageI)
    with assms(3) have nq: "pair_name q \<noteq> ''__proto__''" by auto
    have "pair_name q = (if fst (snd q) = ''default'' then fst q else fst q @ ''-'' @ fst (snd q))"
      by (simp add: pair_name_def entry_name_cases)
    with pairs_map_distinct [OF assms(2) that nq pe, of Map.empty] eps a
    show ?thesis by simp
  qed
  from base_cases [OF base] base d c e show ?thesis by blast
qed

theorem entrypoints_one_per_pair_witness:
  "case entrypoints app_env True ''/static/'' ''/app'' ''/app/__clientTemp/entry.js'' site_routes of
     Inl e \<Rightarrow> False
   | Inr eps \<Rightarrow>
       card (dom eps) = 3 \<and>
       eps ''About-mobile'' =
         Some [''/app/node_modules/webpack-dev-server/client?/static/'',
               ''/app/node_modules/webpack/hot/only-dev-server'',
               ''/app/__clientTemp/entry.js'', ''/app/pages/about-mobile.js'']"
proof -
  obtain eps where
    run: "entrypoints app_env True ''/static/'' ''/app'' ''/app/__clientTemp/entry.js'' site_routes = Inr eps"
    using entrypoints_app_site by blast
  have qs: "route_pairs (routes_routes site_routes) =
      [(''Home'', ''default'', ''pages/home.js''), (''About'', ''default'', ''pages/about.js''),
       (''About'', ''mobile'', ''pages/about-mobile.js'')]"
    by (simp add: route_pairs_def site_routes_def normalizeRoutesPage_def)
  have dist: "distinct (map pair_name (route_pairs (routes_routes site_routes)))"
    by (simp add: qs pair_name_def entry_name_def)
  have np: "''__proto__'' \<notin> set (map pair_name (route_pairs (routes_routes site_routes)))"
    by (simp add: qs pair_name_def entry_name_def)
  from entrypoints_one_per_pair [OF run dist np] obtain base where
    b: "if True then
          \<exists>client only.
            require_resolve app_env ''webpack-dev-server/client'' = Inr client \<and>
            require_resolve app_env ''webpack/hot/only-dev-server'' = Inr only \<and>
            base = [client @ ''?'' @ webpackDevServerClientUrl ''/static/'', only]
        else base = []" and
    c: "card (dom eps) = length (route_pairs (routes_routes site_routes))" and
    e: "\<forall>q \<in> set (route_pairs (routes_routes site_routes)).
          \<exists>page. resolve_page app_env ''/app'' (snd (snd q)) = Inr page \<and>
             eps (if fst (snd q) = ''default'' then fst q else fst q @ ''-'' @ fst (snd q)) =
               Some (base @ [''/app/__clientTemp/entry.js'', page])"
    by blast
  from b have base: "base = [''/app/node_modules/webpack-dev-server/client?/static/'',
      ''/app/node_modules/webpack/hot/only-dev-server'']"
    by (simp add: app_env_def webpackDevServerClientUrl_def protocol_relative_def)
  have "(''About'', ''mobile'', ''pages/about-mobile.js'') \<in> set (route_pairs (routes_routes site_routes))"
    by (simp add: qs)
  from e [rule_format, OF this] have
    "eps ''About-mobile'' =
       Some (base @ [''/app/__clientTemp/entry.js'', ''/app/pages/about-mobile.js''])"
    by (simp add: resolve_page_def app_env_def posix_resolve_def)
  with c run base show ?thesis by (simp add: qs)
qed

text \<open>
  Claim C10. In hot mode every entry starts with the transport client, parameterised
  with the output URL; the URL has \<open>http:\<close> put before it when it starts with two
  slashes and is passed as it is otherwise.
\<close>

theorem hot_entrypoints_client_url:
  assumes "entrypoints env True outputUrl routesDirAbsolute bootstrapFile routes = Inr eps"
    and "eps name = Some modules"
  shows "\<exists>client. require_resolve env ''webpack-dev-server/client'' = Inr client \<and>
           hd modules =
             client @ ''?'' @ (if take 2 outputUrl = ''//'' then ''http:'' @ outputUrl else outputUrl)"
proof -
  from assms(1) obtain base where
    base: "entrypointBase env True outputUrl = Inr base" and
    run: "entrypoints_routes env routesDirAbsolute base bootstrapFile (routes_routes routes) Map.empty = Inr eps"
    by (auto simp: entrypoints_def split: sum.splits)
  from base_cases [OF base] obtain client only where
    client: "require_resolve env ''webpack-dev-server/client'' = Inr client" and
    b: "base = [client @ ''?'' @ webpackDevServerClientUrl outputUrl, only]"
    by auto
  from routes_Inr [OF run] have
    eps: "eps = pairs_map env routesDirAbsolute base bootstrapFile (route_pairs (routes_routes routes)) Map.empty"
    by simp
  have "\<exists>a. modules = base @ [bootstrapFile, a]"
  proof (rule pairs_map_values)
    show "\<forall>k v. (Map.empty :: string \<rightharpoonup> string list) k = Some v \<longrightarrow> (\<exists>a. v = base @ [bootstrapFile, a])"
      by simp
    show "pairs_map env routesDirAbsolute base bootstrapFile (route_pairs (routes_routes routes)) Map.empty name =
        Some modules"
      using assms(2) eps by simp
  qed
  then have "hd modules = client @ ''?'' @ webpackDevServerClientUrl outputUrl"
    using b by auto
  with client show ?thesis
    by (simp add: webpackDevServerClientUrl_def protocol_relative_def)
qed

theorem hot_entrypoints_client_url_witness:
  "case entrypoints app_env True ''//0.0.0.0:3001/'' ''/app'' ''/app/__clientTemp/entry.js'' site_routes of
     Inl e \<Rightarrow> False
   | Inr eps \<Rightarrow>
       map_option hd (eps ''About-mobile'') =
         Some ''/app/node_modules/webpack-dev-server/client?http://0.0.0.0:3001/''"
proof -
  have "\<exists>eps modules.
      entrypoints app_env True ''//0.0.0.0:3001/'' ''/app'' ''/app/__clientTemp/entry.js'' site_routes = Inr eps \<and>
      eps ''About-mobile'' = Some modules"
    by (simp add: entrypoints_def entrypointBase_def app_env_def site_routes_def
          normalizeRoutesPage_def entry_name_def obj_assign_def)
  then obtain eps modules where
    run: "entrypoints app_env True ''//0.0.0.0:3001/'' ''/app'' ''/app/__clientTemp/entry.js'' site_routes = Inr eps" and
    look: "eps ''About-mobile'' = Some modules"
    by blast
  from hot_entrypoints_client_url [OF run look] obtain client where
    "require_resolve app_env ''webpack-dev-server/client'' = Inr client" and
    h: "hd modules =
        client @ ''?'' @ (if take 2 ''//0.0.0.0:3001/'' = ''//'' then ''http:'' @ ''//0.0.0.0:3001/''
                          else ''//0.0.0.0:3001/'')"
    by blast
  then have "client = ''/app/node_modules/webpack-dev-server/client''"
    by (simp add: app_env_def)
  with h run look show ?thesis by simp
qed

section \<open>The method of a route\<close>

lemma method_is_empty_total:
  "\<exists>b. method_is_empty v = Inr b"
  by (cases v) (auto simp: method_is_empty_def strict_equals_new_object_def)

lemma normalize_method_cases:
  "normalize_method v =
     Inr (if v = JUndefined \<or> v = JNull \<or> v = JStr [] \<or> v = JArr [] \<or>
             (\<exists>ps. v = JObj ps \<and> map_of ps ''length'' = Some (JNum 0))
          then JUndefined else v)"
  by (cases v)
     (auto simp: normalize_method_def method_is_empty_def strict_equals_new_object_def
           split: option.splits)


lemma normalize_method_empty_values:
  "normalize_method JUndefined = Inr JUndefined \<and>
   normalize_method JNull = Inr JUndefined \<and>
   normalize_method (JStr []) = Inr JUndefined \<and>
   normalize_method (JArr []) = Inr JUndefined \<and>
   normalize_method (JStr ''GET'') = Inr (JStr ''GET'') \<and>
   interp (JSON_stringify JUndefined) = ''undefined'' \<and>
   interp (JSON_stringify (JStr ''GET'')) = DQ @ ''GET'' @ DQ"
  by (simp add: normalize_method_cases interp_def quote_json_string_def json_escape_char_def DQ_def)

text \<open>
  Claim C4 at the empty object. The comparison \<open>method === {}\<close> is never true and an
  object without a \<open>length\<close> property has no length 0, so the method \<open>{}\<close> stays as it
  is, and the route is written with \<open>method: {}\<close> where the comment above the check
  promises \<open>undefined\<close>.
\<close>

theorem empty_object_method_is_kept:
  "normalize_method (JObj []) = Inr (JObj []) \<and>
   map_sum id hd
     (route_output app_env ''.'' ''/app/__clientTemp'' False
        (''Home'', \<lparr>route_path = JStr ''/'', route_method = JObj [],
                    route_page = PageModule ''pages/home.js''\<rparr>)) =
     Inr (NL @ tabs 2 @ ''Home: {'' @
          NL @ tabs 3 @ ''path: '' @ DQ @ ''/'' @ DQ @ '','' @
          NL @ tabs 3 @ ''method: {},'')"
  by (simp add: normalize_method_cases route_output_def route_open_def interp_def
        quote_json_string_def json_escape_char_def DQ_def)

section \<open>The compile step: the configuration check and the override module\<close>










text \<open>
  A compile without hot reload in \<open>app_env\<close>: the two directories, the bootstrap file
  and the client routes file, then the bundler on the configuration for the output
  directory.
\<close>

lemma compile_site_example:
  "map fs_op_path (snd (compileClient app_env (site_opts\<lparr>opt_hot := Some False\<rparr>) [])) =
     [''/app/__clientTemp'', ''/app/__clientTemp/build'', ''/app/__clientTemp/entry.js'',
      ''/app/__clientTemp/routes_client.js''] \<and>
   map_sum id wp_outputDir (fst (compileClient app_env (site_opts\<lparr>opt_hot := Some False\<rparr>) [])) =
     Inr ''/app/__clientTemp/build''"
  by (simp add: compileClient_def site_opts_def or_default_def app_env_def posix_resolve_def
        writeClientBootstrapFile_def entrypoints_def entrypointBase_def site_routes_def
        normalizeRoutesPage_def writeWebpackCompatibleRoutesFile_def routesContent_def
        route_output_def normalize_method_def method_is_empty_def strict_equals_new_object_def
        getWebpackConfig_def userWebpackConfigOpt_def truthy_path_def Let_def obj_assign_def)



text \<open>
  Claim C6. With \<open>hot\<close> true (set, or left to its default) and \<open>longTermCaching\<close> set to
  true, the call throws the configuration error, and the file system calls are those
  made before it: no directory has been created and no file written.
\<close>

theorem compile_rejects_hot_with_longTermCaching:
  assumes "opt_longTermCaching opts = Some True"
    and "opt_hot opts = Some True \<or> opt_hot opts = None"
  shows "compileClient env opts fs =
     (Inl (Error (''Hot reload cannot be used with long-term caching. '' @
                  ''Please disable either long-term caching or hot reload.'')), fs)"
  using assms by (auto simp: compileClient_def or_default_def)

theorem compile_rejects_hot_with_longTermCaching_witness:
  "compileClient app_env (site_opts\<lparr>opt_hot := Some True, opt_longTermCaching := Some True\<rparr>) [] =
     (Inl (Error (''Hot reload cannot be used with long-term caching. '' @
                  ''Please disable either long-term caching or hot reload.'')), [])"
proof -
  have "opt_longTermCaching (site_opts\<lparr>opt_hot := Some True, opt_longTermCaching := Some True\<rparr>) = Some True"
    by simp
  moreover have "opt_hot (site_opts\<lparr>opt_hot := Some True, opt_longTermCaching := Some True\<rparr>) = Some True \<or>
      opt_hot (site_opts\<lparr>opt_hot := Some True, opt_longTermCaching := Some True\<rparr>) = None"
    by simp
  ultimately show ?thesis by (rule compile_rejects_hot_with_longTermCaching)
qed




section \<open>The routes file\<close>

lemma format_output_server:
  "format_output env routesDir workingDirAbsolute False (format, m) =
     [format_open format,
      server_done_source (relative_module env routesDir workingDirAbsolute m),
      format_close]"
  by (simp add: format_output_def)



text \<open>
  What \<open>done\<close> does when what is thrown is an error object, and when the module loads:
  the failure is logged with the path and the stack trace and \<open>done\<close> returns without a
  call of the callback; the callback is called with the unwrapped module.
\<close>

lemma server_done_logs_error_object:
  assumes "CHR 0x27 \<notin> set p" and "require p t = (Inl (ErrorObject err), t1)"
  shows "map_option (\<lambda>run. run t) (server_done require p cb) =
     Some (Inr (), t1 @ [ConsoleError (''Failed to load page at '' @ DQ @ p @ DQ) (Trace err)])"
  using assms
  by (simp add: server_done_def try_catch_def log_failure_def read_stack_def console_error_def)

lemma server_done_invokes_callback:
  assumes "CHR 0x27 \<notin> set p" and "require p t = (Inr module, t1)"
    and "unwrapEs6Module module = Inr page" and "cb page (t1 @ [Invoked page]) = (Inr u, t2)"
  shows "map_option (\<lambda>run. run t) (server_done require p cb) = Some (Inr (), t2)"
  using assms
  by (simp add: server_done_def try_catch_def invoke_def)

text \<open>
  Claim C7 at a page module that throws \<open>null\<close> while it loads (\<open>throw null\<close> at its top
  level). The exception is caught, but the handler reads \<open>e.stack\<close> of \<open>null\<close>: a
  \<open>TypeError\<close> leaves \<open>done\<close>, and nothing has been logged; the same happens for
  \<open>undefined\<close>. And for a page whose relative path holds an apostrophe the message is
  written as the literal \<open>'Failed to load page at "../pages/o'brien.js"'\<close>, which ends at
  the apostrophe of the path: the routes file is not a program, and no \<open>done\<close> of it can
  run.
\<close>

theorem server_done_throws_when_null_is_thrown:
  "map_option (\<lambda>run. run [])
     (server_done (\<lambda>p t. (Inl (Value JNull), t)) ''../pages/home.js'' (\<lambda>v t. (Inr (), t))) =
     Some (Inl (ErrorObject (TypeError ''Cannot read property stack of null'')), []) \<and>
   map_option (\<lambda>run. run [])
     (server_done (\<lambda>p t. (Inl (Value JUndefined), t)) ''../pages/home.js'' (\<lambda>v t. (Inr (), t))) =
     Some (Inl (ErrorObject (TypeError ''Cannot read property stack of undefined'')), []) \<and>
   server_done_source (relative_module app_env ''.'' ''/app/__clientTemp''
       (''pages/o'' @ [CHR 0x27] @ ''brien.js'')) =
     NL @ tabs 7 @ ''try {'' @
     NL @ tabs 8 @ ''cb(unwrapEs6Module(require('' @ DQ @ ''../pages/o'' @ [CHR 0x27] @ ''brien.js'' @ DQ @
       '')));'' @
     NL @ tabs 7 @ ''} catch (e) {'' @
     NL @ tabs 8 @ ''console.error('' @ [CHR 0x27] @ ''Failed to load page at '' @ DQ @ ''../pages/o'' @
       [CHR 0x27] @ ''brien.js'' @ DQ @ [CHR 0x27] @ '', e.stack);'' @
     NL @ tabs 7 @ ''}'' \<and>
   server_done (\<lambda>p t. (Inr (JStr ''HomePage''), t)) (''../pages/o'' @ [CHR 0x27] @ ''brien.js'')
     (\<lambda>v t. (Inr (), t)) = None"
  by (simp add: server_done_def try_catch_def log_failure_def read_stack_def
        server_done_source_def relative_module_def app_env_def posix_resolve_def
        posix_relative_def interp_def quote_json_string_def json_escape_char_def DQ_def)




end
